theory Spec2Isabelle
  imports Complex_Main
begin

section \<open>Exceptions\<close>

text \<open>
  The exception classes that \<^verbatim>\<open>lakebase_service.py\<close> tells apart. The driver's hierarchy is
  \<^verbatim>\<open>psycopg2.Error\<close> with the subclasses \<^verbatim>\<open>OperationalError\<close> and \<^verbatim>\<open>ProgrammingError\<close>
  (every other subclass is \<open>DriverError\<close>); \<^verbatim>\<open>exceptions.py\<close> adds \<^verbatim>\<open>DatabaseConnectionError\<close>
  and \<^verbatim>\<open>DatabaseQueryError\<close>, each with an optional detail. \<open>OtherException\<close> stands for an
  exception of any other class (an error of the credential provider's SDK, a \<^verbatim>\<open>KeyError\<close>, ...),
  \<open>GeneratorExit\<close> is what closing a suspended generator throws into it.
\<close>

datatype exn =
    OperationalError string
  | ProgrammingError string
  | DriverError string
  | DatabaseConnectionError "string option"
  | DatabaseQueryError "string option"
  | RuntimeError string
  | TypeError string
  | OtherException string
  | GeneratorExit

text \<open>\<^verbatim>\<open>isinstance(e, psycopg2.OperationalError)\<close>\<close>

fun is_OperationalError :: "exn \<Rightarrow> bool" where
  "is_OperationalError (OperationalError m) = True"
| "is_OperationalError e = False"

text \<open>\<^verbatim>\<open>isinstance(e, psycopg2.ProgrammingError)\<close>\<close>

fun is_ProgrammingError :: "exn \<Rightarrow> bool" where
  "is_ProgrammingError (ProgrammingError m) = True"
| "is_ProgrammingError e = False"

text \<open>\<^verbatim>\<open>isinstance(e, psycopg2.Error)\<close>\<close>

fun is_psycopg2_Error :: "exn \<Rightarrow> bool" where
  "is_psycopg2_Error (OperationalError m) = True"
| "is_psycopg2_Error (ProgrammingError m) = True"
| "is_psycopg2_Error (DriverError m) = True"
| "is_psycopg2_Error e = False"

text \<open>\<^verbatim>\<open>isinstance(e, DatabaseConnectionError)\<close>\<close>

fun is_DatabaseConnectionError :: "exn \<Rightarrow> bool" where
  "is_DatabaseConnectionError (DatabaseConnectionError d) = True"
| "is_DatabaseConnectionError e = False"

text \<open>
  \<^verbatim>\<open>str(e)\<close>: the message the exception was built with; \<^verbatim>\<open>AppException.__init__\<close> passes its
  fixed \<^verbatim>\<open>message\<close> to \<^verbatim>\<open>Exception.__init__\<close>.
\<close>

fun str_exn :: "exn \<Rightarrow> string" where
  "str_exn (OperationalError m) = m"
| "str_exn (ProgrammingError m) = m"
| "str_exn (DriverError m) = m"
| "str_exn (DatabaseConnectionError d) = ''Database connection failed''"
| "str_exn (DatabaseQueryError d) = ''Database query failed''"
| "str_exn (RuntimeError m) = m"
| "str_exn (TypeError m) = m"
| "str_exn (OtherException m) = m"
| "str_exn GeneratorExit = []"

section \<open>Configuration, values and the external world\<close>

text \<open>The fields of \<^verbatim>\<open>Settings\<close> (\<^verbatim>\<open>config.py\<close>) that the service reads.\<close>

record settings =
  lakebase_instance_name :: string
  lakebase_schema :: string
  pool_min_connections :: int
  pool_max_connections :: int
  token_refresh_interval :: int

text \<open>The dictionary \<^verbatim>\<open>_pool_config\<close>.\<close>

record pool_config =
  host :: string
  port :: int
  dbname :: string
  user :: string
  sslmode :: string

text \<open>Values found in bind parameters and result rows.\<close>

datatype pyval = PNone | PBool bool | PInt int | PStr string

text \<open>
  Every call that leaves the service, with its arguments: the provider's SDK, the clock, the
  pool and the driver. Pool handles and connections are numbers. \<open>Probe c\<close> is the statement
  \<^verbatim>\<open>conn.cursor().execute("SELECT 1")\<close> on connection \<open>c\<close>. The two \<open>Enter_\<close> events are marks
  that \<^verbatim>\<open>_get_connection_pool\<close> and \<^verbatim>\<open>_reset_pool\<close> leave when they are entered, so that their
  calls can be counted.
\<close>

datatype event =
    Time
  | WorkspaceClient
  | GetDatabaseInstance string
  | CurrentUserMe
  | GenerateDatabaseCredential string
  | ThreadedConnectionPool int int pool_config string
  | CloseAll nat
  | GetConn nat
  | Probe nat
  | PutConn nat nat
  | Cursor nat
  | CursorExecute nat string "pyval list option"
  | CursorDescription nat
  | CursorFetchAll nat
  | CursorExit nat
  | Enter_get_connection_pool
  | Enter_reset_pool

text \<open>
  The environment: the settings and, for every external call, what it answers. An answer
  depends on the whole history of calls, newest first, the call being answered at the head;
  so a collaborator may fail at one call and succeed at the next. \<open>ext_format\<close> is
  \<^verbatim>\<open>str.format\<close> with the one keyword argument \<^verbatim>\<open>schema\<close> (template, schema name).
  \<open>contextlib_closes\<close> is a fact about the interpreter's library: whether the \<^verbatim>\<open>__exit__\<close> of
  \<^verbatim>\<open>contextlib.contextmanager\<close> closes a generator that yields where it should have stopped,
  before it raises its \<^verbatim>\<open>RuntimeError\<close>. Newer CPython releases do (3.11.10 and 3.12.3 among
  them), older ones do not (3.11.2).
\<close>

record env =
  settings :: settings
  ext_time :: "event list \<Rightarrow> real"
  ext_workspace_client :: "event list \<Rightarrow> exn + unit"
  ext_database_instance :: "event list \<Rightarrow> exn + string"
  ext_current_user :: "event list \<Rightarrow> exn + string"
  ext_database_credential :: "event list \<Rightarrow> exn + string"
  ext_pool :: "event list \<Rightarrow> exn + unit"
  ext_closeall :: "event list \<Rightarrow> exn + unit"
  ext_getconn :: "event list \<Rightarrow> exn + nat"
  ext_probe :: "event list \<Rightarrow> exn + unit"
  ext_putconn :: "event list \<Rightarrow> exn + unit"
  ext_cursor :: "event list \<Rightarrow> exn + unit"
  ext_execute :: "event list \<Rightarrow> exn + unit"
  ext_description :: "event list \<Rightarrow> string list option"
  ext_fetchall :: "event list \<Rightarrow> exn + pyval list list"
  ext_cursor_exit :: "event list \<Rightarrow> exn + unit"
  ext_format :: "string \<Rightarrow> string \<Rightarrow> exn + string"
  contextlib_closes :: bool

text \<open>
  The module's globals \<^verbatim>\<open>_token_cache\<close>, \<^verbatim>\<open>_connection_pool\<close> and \<^verbatim>\<open>_pool_config\<close>, the
  history of external calls (newest first) and the leases the pools have outstanding
  (pool, connection).
\<close>

record state =
  token_cache_token :: "string option"
  token_cache_expires_at :: real
  connection_pool :: "nat option"
  pool_config :: "pool_config option"
  trace :: "event list"
  leased :: "(nat \<times> nat) list"

definition initial_state :: state where
  "initial_state = \<lparr>token_cache_token = None, token_cache_expires_at = 0,
     connection_pool = None, pool_config = None, trace = [], leased = []\<rparr>"

text \<open>Sequencing: the second computation runs only when the first did not raise.\<close>

definition and_then ::
  "(state \<Rightarrow> (exn + 'a) \<times> state) \<Rightarrow> ('a \<Rightarrow> state \<Rightarrow> (exn + 'b) \<times> state) \<Rightarrow>
   state \<Rightarrow> (exn + 'b) \<times> state" where
  "and_then m f s = (case m s of (Inl e, s') \<Rightarrow> (Inl e, s') | (Inr v, s') \<Rightarrow> f v s')"

text \<open>An external call is logged and answered by the environment.\<close>

definition call_ext :: "(event list \<Rightarrow> 'a) \<Rightarrow> event \<Rightarrow> state \<Rightarrow> 'a \<times> state" where
  "call_ext answer ev s = (answer (ev # trace s), s\<lparr>trace := ev # trace s\<rparr>)"

definition time_time :: "env \<Rightarrow> state \<Rightarrow> real \<times> state" where
  "time_time env = call_ext (ext_time env) Time"

definition get_workspace_client :: "env \<Rightarrow> state \<Rightarrow> (exn + unit) \<times> state" where
  "get_workspace_client env = call_ext (ext_workspace_client env) WorkspaceClient"

definition get_database_instance :: "env \<Rightarrow> string \<Rightarrow> state \<Rightarrow> (exn + string) \<times> state" where
  "get_database_instance env name = call_ext (ext_database_instance env) (GetDatabaseInstance name)"

definition current_user_me :: "env \<Rightarrow> state \<Rightarrow> (exn + string) \<times> state" where
  "current_user_me env = call_ext (ext_current_user env) CurrentUserMe"

definition generate_database_credential :: "env \<Rightarrow> string \<Rightarrow> state \<Rightarrow> (exn + string) \<times> state" where
  "generate_database_credential env name =
     call_ext (ext_database_credential env) (GenerateDatabaseCredential name)"

section \<open>The token cache\<close>

text \<open>
  \<^verbatim>\<open>_get_fresh_token\<close>. The test \<^verbatim>\<open>_token_cache["token"] and now < _token_cache["expires_at"]\<close>
  is Python truthiness: \<^verbatim>\<open>None\<close> and the empty string both count as no token. Time stamps
  are real numbers (the rounding of \<^verbatim>\<open>time.time()\<close> and of the float addition is left out),
  and the random \<^verbatim>\<open>request_id\<close> of the credential request is not recorded.
\<close>

definition get_fresh_token :: "env \<Rightarrow> state \<Rightarrow> (exn + string) \<times> state" where
  "get_fresh_token env s0 =
     (case time_time env s0 of (now, s) \<Rightarrow>
        (let issue =
               and_then (get_workspace_client env) (\<lambda>w.
               and_then (generate_database_credential env (lakebase_instance_name (settings env)))
                 (\<lambda>tok s'. (Inr tok, s'\<lparr>token_cache_token := Some tok,
                    token_cache_expires_at :=
                      now + real_of_int (token_refresh_interval (settings env))\<rparr>)))
         in case token_cache_token s of
              Some t \<Rightarrow> if t \<noteq> [] \<and> now < token_cache_expires_at s then (Inr t, s) else issue s
            | None \<Rightarrow> issue s))"

section \<open>The pool handle\<close>

text \<open>
  The pool and driver calls. A pool built by \<^verbatim>\<open>pool.ThreadedConnectionPool(...)\<close> is named by
  the number of calls made before it, so every pool object has its own handle.
  \<^verbatim>\<open>getconn\<close> adds a lease when it succeeds and \<^verbatim>\<open>putconn\<close> ends one when it succeeds.
\<close>

definition threaded_connection_pool ::
  "env \<Rightarrow> int \<Rightarrow> int \<Rightarrow> pool_config \<Rightarrow> string \<Rightarrow> state \<Rightarrow> (exn + nat) \<times> state" where
  "threaded_connection_pool env minconn maxconn cfg password s =
     (case call_ext (ext_pool env) (ThreadedConnectionPool minconn maxconn cfg password) s of
        (Inl e, s') \<Rightarrow> (Inl e, s')
      | (Inr u, s') \<Rightarrow> (Inr (length (trace s)), s'))"

definition closeall :: "env \<Rightarrow> nat \<Rightarrow> state \<Rightarrow> (exn + unit) \<times> state" where
  "closeall env p = call_ext (ext_closeall env) (CloseAll p)"

definition getconn :: "env \<Rightarrow> nat \<Rightarrow> state \<Rightarrow> (exn + nat) \<times> state" where
  "getconn env p s =
     (case call_ext (ext_getconn env) (GetConn p) s of
        (Inl e, s') \<Rightarrow> (Inl e, s')
      | (Inr c, s') \<Rightarrow> (Inr c, s'\<lparr>leased := (p, c) # leased s'\<rparr>))"

definition putconn :: "env \<Rightarrow> nat \<Rightarrow> nat \<Rightarrow> state \<Rightarrow> (exn + unit) \<times> state" where
  "putconn env p c s =
     (case call_ext (ext_putconn env) (PutConn p c) s of
        (Inl e, s') \<Rightarrow> (Inl e, s')
      | (Inr u, s') \<Rightarrow> (Inr (), s'\<lparr>leased := remove1 (p, c) (leased s')\<rparr>))"

definition probe :: "env \<Rightarrow> nat \<Rightarrow> state \<Rightarrow> (exn + unit) \<times> state" where
  "probe env c = call_ext (ext_probe env) (Probe c)"

definition mark :: "event \<Rightarrow> state \<Rightarrow> state" where
  "mark ev s = s\<lparr>trace := ev # trace s\<rparr>"

text \<open>
  \<^verbatim>\<open>_get_connection_pool\<close>. The workspace client, the instance and the current user are
  fetched before the test \<^verbatim>\<open>_connection_pool is None\<close>; \<^verbatim>\<open>_pool_config\<close> is assigned before
  the arguments of the pool constructor, the password among them, are evaluated.
\<close>

definition get_connection_pool :: "env \<Rightarrow> state \<Rightarrow> (exn + nat) \<times> state" where
  "get_connection_pool env s0 =
     (and_then (get_workspace_client env) (\<lambda>w.
      and_then (get_database_instance env (lakebase_instance_name (settings env))) (\<lambda>read_write_dns.
      and_then (current_user_me env) (\<lambda>username s.
        case connection_pool s of
          Some p \<Rightarrow> (Inr p, s)
        | None \<Rightarrow>
            (let cfg = \<lparr>host = read_write_dns, port = 5432, dbname = ''databricks_postgres'',
                        user = username, sslmode = ''require''\<rparr>
             in and_then (get_fresh_token env) (\<lambda>password.
                and_then (threaded_connection_pool env (pool_min_connections (settings env))
                            (pool_max_connections (settings env)) cfg password)
                  (\<lambda>p s'. (Inr p, s'\<lparr>connection_pool := Some p\<rparr>)))
                  (s\<lparr>pool_config := Some cfg\<rparr>)))))) (mark Enter_get_connection_pool s0)"

text \<open>\<^verbatim>\<open>_reset_pool\<close>: whatever \<^verbatim>\<open>closeall\<close> raises is swallowed.\<close>

definition reset_pool :: "env \<Rightarrow> state \<Rightarrow> state" where
  "reset_pool env s0 =
     (let s = mark Enter_reset_pool s0;
          s1 = (case connection_pool s of
                  None \<Rightarrow> s
                | Some p \<Rightarrow> (snd (closeall env p s))\<lparr>connection_pool := None\<rparr>)
      in s1\<lparr>token_cache_token := None, token_cache_expires_at := 0\<rparr>)"

section \<open>The generator behind \<^verbatim>\<open>get_connection\<close>\<close>

text \<open>
  \<^verbatim>\<open>get_connection\<close> is a generator function with two \<^verbatim>\<open>yield\<close>s: the first inside the outer
  \<^verbatim>\<open>try\<close> (after the probe), the second inside the \<^verbatim>\<open>except psycopg2.OperationalError\<close>
  handler. A suspended generator is the point where it waits together with its locals
  \<^verbatim>\<open>conn_pool\<close> and \<^verbatim>\<open>conn\<close>. Running it from the start or from a \<^verbatim>\<open>yield\<close> ends in the next
  \<^verbatim>\<open>yield\<close>, in an exception, or in its return.
\<close>

datatype gen_point = AtYield1 nat nat | AtYield2 nat nat

datatype gen_result = Yielded nat gen_point | Raised exn | Returned

text \<open>What resumes a suspended generator: \<^verbatim>\<open>next(gen)\<close> or \<^verbatim>\<open>gen.throw(e)\<close>.\<close>

datatype resumption = Next | Throw exn

text \<open>
  The outer \<^verbatim>\<open>try\<close> up to its \<^verbatim>\<open>yield\<close>: acquire the pool, lease, probe. When the probe
  raises, the \<^verbatim>\<open>finally\<close> returns the connection first (and an exception of \<^verbatim>\<open>putconn\<close>
  replaces the probe's).
\<close>

definition first_attempt :: "env \<Rightarrow> state \<Rightarrow> (exn + nat \<times> nat) \<times> state" where
  "first_attempt env =
     and_then (get_connection_pool env) (\<lambda>conn_pool.
     and_then (getconn env conn_pool) (\<lambda>conn s.
       case probe env conn s of
         (Inr u, s1) \<Rightarrow> (Inr (conn_pool, conn), s1)
       | (Inl e, s1) \<Rightarrow>
           (case putconn env conn_pool conn s1 of
              (Inl e', s2) \<Rightarrow> (Inl e', s2)
            | (Inr u, s2) \<Rightarrow> (Inl e, s2))))"

text \<open>The \<^verbatim>\<open>try\<close> inside the handler up to its \<^verbatim>\<open>yield\<close>: acquire the pool and lease.\<close>

definition second_attempt :: "env \<Rightarrow> state \<Rightarrow> (exn + nat \<times> nat) \<times> state" where
  "second_attempt env =
     and_then (get_connection_pool env) (\<lambda>conn_pool.
     and_then (getconn env conn_pool) (\<lambda>conn s. (Inr (conn_pool, conn), s)))"

text \<open>
  \<^verbatim>\<open>except psycopg2.OperationalError as retry_error: raise DatabaseConnectionError(...)\<close>:
  what an exception leaving the inner \<^verbatim>\<open>try\<close> becomes.
\<close>

definition retry_except :: "exn \<Rightarrow> exn" where
  "retry_except e =
     (if is_OperationalError e then DatabaseConnectionError (Some (str_exn e)) else e)"

text \<open>
  The outer \<^verbatim>\<open>except psycopg2.OperationalError\<close> clause, entered with the exception that left
  the outer \<^verbatim>\<open>try\<close>: any other exception leaves the generator; an \<^verbatim>\<open>OperationalError\<close> resets
  the pool and runs the second attempt.
\<close>

definition outer_except :: "env \<Rightarrow> exn \<Rightarrow> state \<Rightarrow> gen_result \<times> state" where
  "outer_except env e s =
     (if is_OperationalError e then
        (case second_attempt env (reset_pool env s) of
           (Inr (conn_pool, conn), s') \<Rightarrow> (Yielded conn (AtYield2 conn_pool conn), s')
         | (Inl e', s') \<Rightarrow> (Raised (retry_except e'), s'))
      else (Raised e, s))"

text \<open>The generator from its start to the first thing it does.\<close>

definition gen_start :: "env \<Rightarrow> state \<Rightarrow> gen_result \<times> state" where
  "gen_start env s =
     (case first_attempt env s of
        (Inr (conn_pool, conn), s') \<Rightarrow> (Yielded conn (AtYield1 conn_pool conn), s')
      | (Inl e, s') \<Rightarrow> outer_except env e s')"

text \<open>
  The generator resumed at a \<^verbatim>\<open>yield\<close>. The \<^verbatim>\<open>finally\<close> of that \<^verbatim>\<open>yield\<close> returns the
  connection to the local \<^verbatim>\<open>conn_pool\<close>; the exception then in flight (the one thrown in, or
  the one \<^verbatim>\<open>putconn\<close> raised) meets the \<^verbatim>\<open>except\<close> clause around that \<^verbatim>\<open>yield\<close>.
\<close>

fun gen_resume :: "env \<Rightarrow> gen_point \<Rightarrow> resumption \<Rightarrow> state \<Rightarrow> gen_result \<times> state" where
  "gen_resume env (AtYield1 conn_pool conn) r s =
     (case putconn env conn_pool conn s of
        (Inl e', s') \<Rightarrow> outer_except env e' s'
      | (Inr u, s') \<Rightarrow> (case r of Next \<Rightarrow> (Returned, s') | Throw e \<Rightarrow> outer_except env e s'))"
| "gen_resume env (AtYield2 conn_pool conn) r s =
     (case putconn env conn_pool conn s of
        (Inl e', s') \<Rightarrow> (Raised (retry_except e'), s')
      | (Inr u, s') \<Rightarrow>
          (case r of Next \<Rightarrow> (Returned, s') | Throw e \<Rightarrow> (Raised (retry_except e), s')))"

text \<open>
  \<^verbatim>\<open>gen.close()\<close>: \<^verbatim>\<open>GeneratorExit\<close> is thrown in; the generator is closed when that exception
  (or a return) comes back, a further \<^verbatim>\<open>yield\<close> is a \<^verbatim>\<open>RuntimeError\<close>, any other exception
  is passed on.
\<close>

definition gen_close :: "env \<Rightarrow> gen_point \<Rightarrow> state \<Rightarrow> (exn + unit) \<times> state" where
  "gen_close env pt s =
     (case gen_resume env pt (Throw GeneratorExit) s of
        (Raised e, s') \<Rightarrow> if e = GeneratorExit then (Inr (), s') else (Inl e, s')
      | (Returned, s') \<Rightarrow> (Inr (), s')
      | (Yielded c pt', s') \<Rightarrow> (Inl (RuntimeError ''generator ignored GeneratorExit''), s'))"

text \<open>
  What \<^verbatim>\<open>__exit__\<close> does with a generator that has yielded again: where the library closes
  it, the generator is closed first, and an exception of the closing replaces the
  \<^verbatim>\<open>RuntimeError\<close>; where it does not, the generator stays suspended at that \<^verbatim>\<open>yield\<close>.
\<close>

definition did_not_stop ::
  "env \<Rightarrow> string \<Rightarrow> gen_point \<Rightarrow> state \<Rightarrow> (exn + 'a) \<times> state" where
  "did_not_stop env message pt s =
     (if contextlib_closes env then
        (case gen_close env pt s of
           (Inl e, s') \<Rightarrow> (Inl e, s')
         | (Inr u, s') \<Rightarrow> (Inl (RuntimeError message), s'))
      else (Inl (RuntimeError message), s))"

text \<open>
  \<^verbatim>\<open>with self.get_connection() as conn: body\<close>, by the protocol of
  \<^verbatim>\<open>contextlib.contextmanager\<close>. \<^verbatim>\<open>__enter__\<close> runs the generator to its first \<^verbatim>\<open>yield\<close>;
  \<^verbatim>\<open>__exit__\<close> resumes it with \<^verbatim>\<open>next\<close> after a normal end of the body and with \<^verbatim>\<open>throw\<close>
  after an exception. A generator that yields once more makes \<^verbatim>\<open>__exit__\<close> raise a
  \<^verbatim>\<open>RuntimeError\<close>. The result \<open>Inr None\<close> is the body's exception suppressed (the
  generator returned after \<^verbatim>\<open>throw\<close>).
\<close>

definition with_connection ::
  "env \<Rightarrow> (nat \<Rightarrow> state \<Rightarrow> (exn + 'a) \<times> state) \<Rightarrow> state \<Rightarrow> (exn + 'a option) \<times> state" where
  "with_connection env body s =
     (case gen_start env s of
        (Raised e, s1) \<Rightarrow> (Inl e, s1)
      | (Returned, s1) \<Rightarrow> (Inl (RuntimeError ''generator didn't yield''), s1)
      | (Yielded conn pt, s1) \<Rightarrow>
          (case body conn s1 of
             (Inr v, s2) \<Rightarrow>
               (case gen_resume env pt Next s2 of
                  (Returned, s3) \<Rightarrow> (Inr (Some v), s3)
                | (Raised e, s3) \<Rightarrow> (Inl e, s3)
                | (Yielded c' pt', s3) \<Rightarrow> did_not_stop env ''generator didn't stop'' pt' s3)
           | (Inl e, s2) \<Rightarrow>
               (case gen_resume env pt (Throw e) s2 of
                  (Returned, s3) \<Rightarrow> (Inr None, s3)
                | (Raised e', s3) \<Rightarrow> (Inl e', s3)
                | (Yielded c' pt', s3) \<Rightarrow>
                    did_not_stop env ''generator didn't stop after throw()'' pt' s3)))"

section \<open>The query executor\<close>

definition conn_cursor :: "env \<Rightarrow> nat \<Rightarrow> state \<Rightarrow> (exn + unit) \<times> state" where
  "conn_cursor env c = call_ext (ext_cursor env) (Cursor c)"

definition cur_execute ::
  "env \<Rightarrow> nat \<Rightarrow> string \<Rightarrow> pyval list option \<Rightarrow> state \<Rightarrow> (exn + unit) \<times> state" where
  "cur_execute env c formatted_sql params =
     call_ext (ext_execute env) (CursorExecute c formatted_sql params)"

definition cur_description :: "env \<Rightarrow> nat \<Rightarrow> state \<Rightarrow> string list option \<times> state" where
  "cur_description env c = call_ext (ext_description env) (CursorDescription c)"

definition cur_fetchall :: "env \<Rightarrow> nat \<Rightarrow> state \<Rightarrow> (exn + pyval list list) \<times> state" where
  "cur_fetchall env c = call_ext (ext_fetchall env) (CursorFetchAll c)"

definition cur_exit :: "env \<Rightarrow> nat \<Rightarrow> state \<Rightarrow> (exn + unit) \<times> state" where
  "cur_exit env c = call_ext (ext_cursor_exit env) (CursorExit c)"

text \<open>
  A Python \<^verbatim>\<open>dict\<close> as the list of its items in insertion order, every key once: storing
  under a key already present replaces the value where the key stands.
\<close>

fun dict_set :: "('k \<times> 'v) list \<Rightarrow> 'k \<Rightarrow> 'v \<Rightarrow> ('k \<times> 'v) list" where
  "dict_set [] k v = [(k, v)]"
| "dict_set ((k', v') # d) k v =
     (if k' = k then (k', v) # d else (k', v') # dict_set d k v)"

text \<open>\<^verbatim>\<open>dict(pairs)\<close>\<close>

definition py_dict :: "('k \<times> 'v) list \<Rightarrow> ('k \<times> 'v) list" where
  "py_dict pairs = foldl (\<lambda>d (k, v). dict_set d k v) [] pairs"

text \<open>
  The statements under \<^verbatim>\<open>with conn.cursor() as cur:\<close>. \<^verbatim>\<open>cur.description\<close> is \<^verbatim>\<open>None\<close> after a
  statement without a result set, and iterating over it is a \<^verbatim>\<open>TypeError\<close>; otherwise
  \<open>columns\<close> are the names \<^verbatim>\<open>desc[0]\<close>.
\<close>

definition cursor_block ::
  "env \<Rightarrow> string \<Rightarrow> pyval list option \<Rightarrow> nat \<Rightarrow> state \<Rightarrow>
   (exn + (string \<times> pyval) list list) \<times> state" where
  "cursor_block env sql params c s =
     (case ext_format env sql (lakebase_schema (settings env)) of
        Inl e \<Rightarrow> (Inl e, s)
      | Inr formatted_sql \<Rightarrow>
          and_then (cur_execute env c formatted_sql params) (\<lambda>u s1.
            case cur_description env c s1 of
              (None, s2) \<Rightarrow> (Inl (TypeError ''NoneType object is not iterable''), s2)
            | (Some columns, s2) \<Rightarrow>
                and_then (cur_fetchall env c)
                  (\<lambda>rows s3. (Inr (map (\<lambda>row. py_dict (zip columns row)) rows), s3)) s2) s)"

text \<open>
  The body of \<^verbatim>\<open>with self.get_connection() as conn:\<close>, that is
  \<^verbatim>\<open>with conn.cursor() as cur: ...\<close>: the cursor's \<^verbatim>\<open>__exit__\<close> runs on every way out of the
  block and suppresses nothing; what it raises replaces the block's outcome.
\<close>

definition connection_block ::
  "env \<Rightarrow> string \<Rightarrow> pyval list option \<Rightarrow> nat \<Rightarrow> state \<Rightarrow>
   (exn + (string \<times> pyval) list list) \<times> state" where
  "connection_block env sql params c =
     and_then (conn_cursor env c) (\<lambda>cur s.
       case cursor_block env sql params c s of
         (r, s1) \<Rightarrow>
           (case cur_exit env c s1 of
              (Inl e, s2) \<Rightarrow> (Inl e, s2)
            | (Inr u, s2) \<Rightarrow> (r, s2)))"

text \<open>
  \<^verbatim>\<open>execute_query\<close>: the three \<^verbatim>\<open>except\<close> clauses in their order. \<open>Inr None\<close> is the value
  \<^verbatim>\<open>None\<close> of a function that falls off its end.
\<close>

definition execute_query ::
  "env \<Rightarrow> string \<Rightarrow> pyval list option \<Rightarrow> state \<Rightarrow>
   (exn + (string \<times> pyval) list list option) \<times> state" where
  "execute_query env sql params s =
     (case with_connection env (connection_block env sql params) s of
        (Inr rows, s') \<Rightarrow> (Inr rows, s')
      | (Inl e, s') \<Rightarrow>
          if is_DatabaseConnectionError e then (Inl e, s')
          else if is_ProgrammingError e then (Inl (DatabaseQueryError (Some (str_exn e))), s')
          else if is_psycopg2_Error e then (Inl (DatabaseQueryError (Some (str_exn e))), s')
          else (Inl e, s'))"

section \<open>Reading the history\<close>

fun is_acquisition :: "event \<Rightarrow> bool" where
  "is_acquisition Enter_get_connection_pool = True"
| "is_acquisition ev = False"

fun is_reset :: "event \<Rightarrow> bool" where
  "is_reset Enter_reset_pool = True"
| "is_reset ev = False"

fun is_resolution :: "event \<Rightarrow> bool" where
  "is_resolution (GetDatabaseInstance n) = True"
| "is_resolution ev = False"

fun is_current_user :: "event \<Rightarrow> bool" where
  "is_current_user CurrentUserMe = True"
| "is_current_user ev = False"

fun is_issuance :: "event \<Rightarrow> bool" where
  "is_issuance (GenerateDatabaseCredential n) = True"
| "is_issuance ev = False"

fun is_pool_build :: "event \<Rightarrow> bool" where
  "is_pool_build (ThreadedConnectionPool mn mx cfg pw) = True"
| "is_pool_build ev = False"

fun is_closeall :: "event \<Rightarrow> bool" where
  "is_closeall (CloseAll p) = True"
| "is_closeall ev = False"

fun is_lease :: "event \<Rightarrow> bool" where
  "is_lease (GetConn p) = True"
| "is_lease ev = False"

fun is_probe :: "event \<Rightarrow> bool" where
  "is_probe (Probe c) = True"
| "is_probe ev = False"

text \<open>How many events of a kind a state's history holds.\<close>

definition count_of :: "(event \<Rightarrow> bool) \<Rightarrow> state \<Rightarrow> nat" where
  "count_of P s = length (filter P (trace s))"

text \<open>The SQL texts and the bind parameters handed to \<^verbatim>\<open>cur.execute\<close>, newest first.\<close>

fun sql_of :: "event \<Rightarrow> string list" where
  "sql_of (CursorExecute c q ps) = [q]"
| "sql_of ev = []"

fun params_of :: "event \<Rightarrow> pyval list option list" where
  "params_of (CursorExecute c q ps) = [ps]"
| "params_of ev = []"

definition sent_sql :: "state \<Rightarrow> string list" where
  "sent_sql s = concat (map sql_of (trace s))"

definition sent_params :: "state \<Rightarrow> pyval list option list" where
  "sent_params s = concat (map params_of (trace s))"

text \<open>The lease a suspended generator holds: its locals \<^verbatim>\<open>conn_pool\<close> and \<^verbatim>\<open>conn\<close>.\<close>

fun lease_of :: "gen_point \<Rightarrow> nat \<times> nat" where
  "lease_of (AtYield1 conn_pool conn) = (conn_pool, conn)"
| "lease_of (AtYield2 conn_pool conn) = (conn_pool, conn)"

text \<open>
  The token cache is valid at the next reading of the clock: a token is stored, it is not
  empty, and the clock is before the stored expiry.
\<close>

definition cache_valid :: "env \<Rightarrow> state \<Rightarrow> bool" where
  "cache_valid env s \<longleftrightarrow>
     (case token_cache_token s of Some t \<Rightarrow> t \<noteq> [] | None \<Rightarrow> False) \<and>
     ext_time env (Time # trace s) < token_cache_expires_at s"

text \<open>\<open>n\<close> calls of \<^verbatim>\<open>_get_fresh_token\<close> in a row, with what each returned.\<close>

fun get_token_calls :: "env \<Rightarrow> nat \<Rightarrow> state \<Rightarrow> (exn + string) list \<times> state" where
  "get_token_calls env 0 s = ([], s)"
| "get_token_calls env (Suc n) s =
     (case get_fresh_token env s of (r, s') \<Rightarrow>
        (case get_token_calls env n s' of (rs, s'') \<Rightarrow> (r # rs, s'')))"

text \<open>The cache is valid at each of the next \<open>n\<close> calls.\<close>

fun unexpired_during :: "env \<Rightarrow> nat \<Rightarrow> state \<Rightarrow> bool" where
  "unexpired_during env 0 s = True"
| "unexpired_during env (Suc n) s =
     (cache_valid env s \<and> unexpired_during env n (snd (get_fresh_token env s)))"

section \<open>Concrete environments\<close>

text \<open>
  \<^verbatim>\<open>str.format(schema=...)\<close> on templates whose replacement fields are plain names: text is
  copied, \<^verbatim>\<open>{{\<close> and \<^verbatim>\<open>}}\<close> are braces, \<^verbatim>\<open>{schema}\<close> is the schema name, another name is a
  \<^verbatim>\<open>KeyError\<close>, an empty field an \<^verbatim>\<open>IndexError\<close>, an unmatched brace a \<^verbatim>\<open>ValueError\<close>. The
  second argument is the field being read, if any, newest character first.
\<close>

fun plain_format_from :: "string \<Rightarrow> string option \<Rightarrow> string \<Rightarrow> exn + string" where
  "plain_format_from schema None [] = Inr []"
| "plain_format_from schema (Some f) [] = Inl (OtherException ''ValueError'')"
| "plain_format_from schema None (c # cs) =
     (if c = CHR ''{'' then
        (case cs of
           [] \<Rightarrow> Inl (OtherException ''ValueError'')
         | d # ds \<Rightarrow>
             if d = CHR ''{'' then map_sum id (Cons c) (plain_format_from schema None ds)
             else plain_format_from schema (Some []) cs)
      else if c = CHR ''}'' then
        (case cs of
           [] \<Rightarrow> Inl (OtherException ''ValueError'')
         | d # ds \<Rightarrow>
             if d = CHR ''}'' then map_sum id (Cons c) (plain_format_from schema None ds)
             else Inl (OtherException ''ValueError''))
      else map_sum id (Cons c) (plain_format_from schema None cs))"
| "plain_format_from schema (Some f) (c # cs) =
     (if c = CHR ''}'' then
        (if rev f = ''schema'' then map_sum id (append schema) (plain_format_from schema None cs)
         else if f = [] then Inl (OtherException ''IndexError'')
         else Inl (OtherException ''KeyError''))
      else plain_format_from schema (Some (c # f)) cs)"

definition plain_format :: "string \<Rightarrow> string \<Rightarrow> exn + string" where
  "plain_format template schema = plain_format_from schema None template"

text \<open>The defaults of \<^verbatim>\<open>config.py\<close>.\<close>

definition default_settings :: settings where
  "default_settings = \<lparr>lakebase_instance_name = ''marketplace-intel-db'',
     lakebase_schema = ''gold'', pool_min_connections = 2, pool_max_connections = 10,
     token_refresh_interval = 900\<rparr>"

text \<open>
  An environment in which nothing fails: the clock stands at 100, every lease is connection
  3, every statement answers with the one column \<open>x\<close> and the one row \<open>(1)\<close>, and the
  library closes a generator that does not stop.
\<close>

definition calm_env :: env where
  "calm_env = \<lparr>settings = default_settings,
     ext_time = (\<lambda>tr. 100),
     ext_workspace_client = (\<lambda>tr. Inr ()),
     ext_database_instance = (\<lambda>tr. Inr ''instance.example''),
     ext_current_user = (\<lambda>tr. Inr ''user@example.com''),
     ext_database_credential = (\<lambda>tr. Inr ''secret''),
     ext_pool = (\<lambda>tr. Inr ()),
     ext_closeall = (\<lambda>tr. Inr ()),
     ext_getconn = (\<lambda>tr. Inr 3),
     ext_probe = (\<lambda>tr. Inr ()),
     ext_putconn = (\<lambda>tr. Inr ()),
     ext_cursor = (\<lambda>tr. Inr ()),
     ext_execute = (\<lambda>tr. Inr ()),
     ext_description = (\<lambda>tr. Some [''x'']),
     ext_fetchall = (\<lambda>tr. Inr [[PInt 1]]),
     ext_cursor_exit = (\<lambda>tr. Inr ()),
     ext_format = plain_format,
     contextlib_closes = True\<rparr>"

text \<open>
  Environments in which one collaborator fails: every lease a dead connection (the probe
  raises), the pool out of connections to the server, the provider refusing to issue a token,
  the server going away once the first pool is built (the second pool cannot be built), the
  server not yet there when the first pool is built.
\<close>

definition dead_connection_env :: env where
  "dead_connection_env = calm_env\<lparr>ext_probe :=
     (\<lambda>tr. Inl (OperationalError ''server closed the connection unexpectedly''))\<rparr>"

definition lease_refused_env :: env where
  "lease_refused_env = calm_env\<lparr>ext_getconn :=
     (\<lambda>tr. Inl (OperationalError ''connection refused''))\<rparr>"

definition token_denied_env :: env where
  "token_denied_env = calm_env\<lparr>ext_database_credential :=
     (\<lambda>tr. Inl (OtherException ''PermissionDenied''))\<rparr>"

definition server_lost_env :: env where
  "server_lost_env = calm_env\<lparr>ext_pool :=
     (\<lambda>tr. if length (filter is_pool_build tr) = 1 then Inr ()
           else Inl (OperationalError ''could not connect to server''))\<rparr>"

definition slow_server_env :: env where
  "slow_server_env = calm_env\<lparr>ext_pool :=
     (\<lambda>tr. if length (filter is_pool_build tr) = 1
           then Inl (OperationalError ''could not connect to server'') else Inr ())\<rparr>"

text \<open>
  Environments in which the statement fails: the server rejects it as malformed, or the
  fetch dies of something that is no driver error.
\<close>

definition bad_statement_env :: env where
  "bad_statement_env = calm_env\<lparr>ext_execute :=
     (\<lambda>tr. Inl (ProgrammingError ''syntax error at or near SELEC''))\<rparr>"

definition broken_fetch_env :: env where
  "broken_fetch_env = calm_env\<lparr>ext_fetchall :=
     (\<lambda>tr. Inl (OtherException ''MemoryError''))\<rparr>"

text \<open>
  More failures: the instance cannot be found by the provider; the statement is cancelled by
  the server (a \<^verbatim>\<open>QueryCanceled\<close>, which is an \<^verbatim>\<open>OperationalError\<close>); the connection drops
  under the statement and the server is gone when the pool is rebuilt; the statement breaks
  a constraint (an \<^verbatim>\<open>IntegrityError\<close>, neither operational nor a programming error); the
  probe finds the first connection dead and the statement loses the second one. And the
  calm environment on an interpreter whose library does not close the generator.
\<close>

definition instance_missing_env :: env where
  "instance_missing_env = calm_env\<lparr>ext_database_instance :=
     (\<lambda>tr. Inl (OtherException ''NotFound''))\<rparr>"

definition statement_timeout_env :: env where
  "statement_timeout_env = calm_env\<lparr>ext_execute :=
     (\<lambda>tr. Inl (OperationalError ''canceling statement due to statement timeout''))\<rparr>"

definition connection_dropped_env :: env where
  "connection_dropped_env = server_lost_env\<lparr>ext_execute :=
     (\<lambda>tr. Inl (OperationalError ''server closed the connection unexpectedly''))\<rparr>"

definition duplicate_key_env :: env where
  "duplicate_key_env = calm_env\<lparr>ext_execute :=
     (\<lambda>tr. Inl (DriverError ''duplicate key value violates unique constraint''))\<rparr>"

definition lost_again_env :: env where
  "lost_again_env = dead_connection_env\<lparr>ext_execute :=
     (\<lambda>tr. Inl (OperationalError ''connection lost''))\<rparr>"

definition old_library_env :: env where
  "old_library_env = calm_env\<lparr>contextlib_closes := False\<rparr>"

text \<open>Caller's blocks: one that does nothing, one whose statement loses the connection.\<close>

definition idle_block :: "nat \<Rightarrow> state \<Rightarrow> (exn + unit) \<times> state" where
  "idle_block c s = (Inr (), s)"

definition failing_block :: "nat \<Rightarrow> state \<Rightarrow> (exn + unit) \<times> state" where
  "failing_block c s = (Inl (OperationalError ''connection lost''), s)"

section \<open>Frame properties of the operations\<close>

declare gen_resume.simps [simp del]

lemmas wrapper_defs = time_time_def get_workspace_client_def get_database_instance_def
  current_user_me_def generate_database_credential_def closeall_def probe_def
  conn_cursor_def cur_execute_def cur_description_def cur_fetchall_def cur_exit_def

lemmas read_defs = count_of_def sent_sql_def sent_params_def

text \<open>
  What each operation leaves unchanged: the counts of events it does not emit, the SQL sent,
  the leases. Stated on the state an operation returns, so that they rewrite.
\<close>

lemma update_frame:
  "count_of P (s\<lparr>token_cache_token := a\<rparr>) = count_of P s"
  "count_of P (s\<lparr>token_cache_expires_at := b\<rparr>) = count_of P s"
  "count_of P (s\<lparr>connection_pool := c\<rparr>) = count_of P s"
  "count_of P (s\<lparr>pool_config := d\<rparr>) = count_of P s"
  "count_of P (s\<lparr>leased := l\<rparr>) = count_of P s"
  "sent_sql (s\<lparr>token_cache_token := a\<rparr>) = sent_sql s"
  "sent_sql (s\<lparr>token_cache_expires_at := b\<rparr>) = sent_sql s"
  "sent_sql (s\<lparr>connection_pool := c\<rparr>) = sent_sql s"
  "sent_sql (s\<lparr>pool_config := d\<rparr>) = sent_sql s"
  "sent_sql (s\<lparr>leased := l\<rparr>) = sent_sql s"
  "sent_params (s\<lparr>token_cache_token := a\<rparr>) = sent_params s"
  "sent_params (s\<lparr>token_cache_expires_at := b\<rparr>) = sent_params s"
  "sent_params (s\<lparr>connection_pool := c\<rparr>) = sent_params s"
  "sent_params (s\<lparr>pool_config := d\<rparr>) = sent_params s"
  "sent_params (s\<lparr>leased := l\<rparr>) = sent_params s"
  by (simp_all add: read_defs)

lemma call_ext_frame:
  "fst (call_ext a ev s) = a (ev # trace s)"
  "count_of P (snd (call_ext a ev s)) = (if P ev then 1 else 0) + count_of P s"
  "sent_sql (snd (call_ext a ev s)) = sql_of ev @ sent_sql s"
  "sent_params (snd (call_ext a ev s)) = params_of ev @ sent_params s"
  "leased (snd (call_ext a ev s)) = leased s"
  "connection_pool (snd (call_ext a ev s)) = connection_pool s"
  "pool_config (snd (call_ext a ev s)) = pool_config s"
  "token_cache_token (snd (call_ext a ev s)) = token_cache_token s"
  "token_cache_expires_at (snd (call_ext a ev s)) = token_cache_expires_at s"
  "trace (snd (call_ext a ev s)) = ev # trace s"
  by (simp_all add: call_ext_def read_defs)

lemma mark_frame:
  "count_of P (mark ev s) = (if P ev then 1 else 0) + count_of P s"
  "sent_sql (mark ev s) = sql_of ev @ sent_sql s"
  "sent_params (mark ev s) = params_of ev @ sent_params s"
  "leased (mark ev s) = leased s"
  "connection_pool (mark ev s) = connection_pool s"
  "pool_config (mark ev s) = pool_config s"
  "token_cache_token (mark ev s) = token_cache_token s"
  "token_cache_expires_at (mark ev s) = token_cache_expires_at s"
  "trace (mark ev s) = ev # trace s"
  by (simp_all add: mark_def read_defs)

lemma getconn_frame:
  "count_of P (snd (getconn env p s)) = (if P (GetConn p) then 1 else 0) + count_of P s"
  "sent_sql (snd (getconn env p s)) = sent_sql s"
  "sent_params (snd (getconn env p s)) = sent_params s"
  "leased (snd (getconn env p s)) =
     (case fst (getconn env p s) of Inr c \<Rightarrow> (p, c) # leased s | Inl e \<Rightarrow> leased s)"
  by (simp_all add: getconn_def case_prod_beta call_ext_frame update_frame split: sum.splits)

lemma putconn_frame:
  "count_of P (snd (putconn env p c s)) = (if P (PutConn p c) then 1 else 0) + count_of P s"
  "sent_sql (snd (putconn env p c s)) = sent_sql s"
  "sent_params (snd (putconn env p c s)) = sent_params s"
  "leased (snd (putconn env p c s)) =
     (case fst (putconn env p c s) of Inr u \<Rightarrow> remove1 (p, c) (leased s) | Inl e \<Rightarrow> leased s)"
  by (simp_all add: putconn_def case_prod_beta call_ext_frame update_frame split: sum.splits)

lemma probe_frame:
  "count_of P (snd (probe env c s)) = (if P (Probe c) then 1 else 0) + count_of P s"
  "sent_sql (snd (probe env c s)) = sent_sql s"
  "sent_params (snd (probe env c s)) = sent_params s"
  "leased (snd (probe env c s)) = leased s"
  by (simp_all add: probe_def call_ext_frame)

lemma pool_frame:
  "count_of P (snd (threaded_connection_pool env mn mx cfg pw s)) =
     (if P (ThreadedConnectionPool mn mx cfg pw) then 1 else 0) + count_of P s"
  "sent_sql (snd (threaded_connection_pool env mn mx cfg pw s)) = sent_sql s"
  "sent_params (snd (threaded_connection_pool env mn mx cfg pw s)) = sent_params s"
  "leased (snd (threaded_connection_pool env mn mx cfg pw s)) = leased s"
  by (simp_all add: threaded_connection_pool_def case_prod_beta call_ext_frame update_frame
      split: sum.splits)

lemma get_fresh_token_frame:
  "\<not> P Time \<Longrightarrow> \<not> P WorkspaceClient \<Longrightarrow> (\<And>n. \<not> P (GenerateDatabaseCredential n)) \<Longrightarrow>
     count_of P (snd (get_fresh_token env s)) = count_of P s"
  "sent_sql (snd (get_fresh_token env s)) = sent_sql s"
  "sent_params (snd (get_fresh_token env s)) = sent_params s"
  "leased (snd (get_fresh_token env s)) = leased s"
  by (simp_all add: get_fresh_token_def and_then_def wrapper_defs case_prod_beta Let_def
      call_ext_frame update_frame split: sum.splits option.splits)

lemma get_connection_pool_frame:
  "count_of is_acquisition (snd (get_connection_pool env s)) = count_of is_acquisition s + 1"
  "count_of is_reset (snd (get_connection_pool env s)) = count_of is_reset s"
  "count_of is_probe (snd (get_connection_pool env s)) = count_of is_probe s"
  "count_of is_lease (snd (get_connection_pool env s)) = count_of is_lease s"
  "sent_sql (snd (get_connection_pool env s)) = sent_sql s"
  "sent_params (snd (get_connection_pool env s)) = sent_params s"
  "leased (snd (get_connection_pool env s)) = leased s"
  by (simp_all add: get_connection_pool_def and_then_def wrapper_defs case_prod_beta Let_def
      call_ext_frame update_frame mark_frame pool_frame get_fresh_token_frame
      split: sum.splits option.splits)

lemma reset_pool_frame:
  "count_of is_acquisition (reset_pool env s) = count_of is_acquisition s"
  "count_of is_reset (reset_pool env s) = count_of is_reset s + 1"
  "count_of is_probe (reset_pool env s) = count_of is_probe s"
  "sent_sql (reset_pool env s) = sent_sql s"
  "sent_params (reset_pool env s) = sent_params s"
  "leased (reset_pool env s) = leased s"
  "connection_pool (reset_pool env s) = None"
  "token_cache_token (reset_pool env s) = None"
  by (simp_all add: reset_pool_def closeall_def Let_def call_ext_frame update_frame mark_frame
      split: option.splits)

lemma first_attempt_frame:
  "count_of is_acquisition (snd (first_attempt env s)) = count_of is_acquisition s + 1"
  "count_of is_reset (snd (first_attempt env s)) = count_of is_reset s"
  "sent_sql (snd (first_attempt env s)) = sent_sql s"
  "sent_params (snd (first_attempt env s)) = sent_params s"
  by (simp_all add: first_attempt_def and_then_def case_prod_beta
      get_connection_pool_frame getconn_frame probe_frame putconn_frame split: sum.splits)

lemma second_attempt_frame:
  "count_of is_acquisition (snd (second_attempt env s)) = count_of is_acquisition s + 1"
  "count_of is_reset (snd (second_attempt env s)) = count_of is_reset s"
  "count_of is_probe (snd (second_attempt env s)) = count_of is_probe s"
  "sent_sql (snd (second_attempt env s)) = sent_sql s"
  "sent_params (snd (second_attempt env s)) = sent_params s"
  by (simp_all add: second_attempt_def and_then_def case_prod_beta
      get_connection_pool_frame getconn_frame split: sum.splits)

lemma outer_except_frame:
  "count_of is_acquisition (snd (outer_except env e s)) =
     (if is_OperationalError e then 1 else 0) + count_of is_acquisition s"
  "count_of is_reset (snd (outer_except env e s)) =
     (if is_OperationalError e then 1 else 0) + count_of is_reset s"
  "count_of is_probe (snd (outer_except env e s)) = count_of is_probe s"
  "sent_sql (snd (outer_except env e s)) = sent_sql s"
  "sent_params (snd (outer_except env e s)) = sent_params s"
  by (simp_all add: outer_except_def case_prod_beta second_attempt_frame reset_pool_frame
      split: sum.splits)

lemma gen_start_frame:
  "sent_sql (snd (gen_start env s)) = sent_sql s"
  "sent_params (snd (gen_start env s)) = sent_params s"
  by (simp_all add: gen_start_def case_prod_beta first_attempt_frame outer_except_frame
      split: sum.splits)

lemma gen_resume_frame:
  "sent_sql (snd (gen_resume env pt r s)) = sent_sql s"
  "sent_params (snd (gen_resume env pt r s)) = sent_params s"
  by (cases pt; simp add: gen_resume.simps case_prod_beta putconn_frame outer_except_frame
      split: sum.splits resumption.splits)+

lemma gen_close_frame:
  "sent_sql (snd (gen_close env pt s)) = sent_sql s"
  "sent_params (snd (gen_close env pt s)) = sent_params s"
  by (simp_all add: gen_close_def case_prod_beta gen_resume_frame split: gen_result.splits)

lemma did_not_stop_frame:
  "sent_sql (snd (did_not_stop env message pt s)) = sent_sql s"
  "sent_params (snd (did_not_stop env message pt s)) = sent_params s"
  by (simp_all add: did_not_stop_def case_prod_beta gen_close_frame split: sum.splits)

lemma did_not_stop_raises: "fst (did_not_stop env message pt s) \<noteq> Inr v"
  by (simp add: did_not_stop_def case_prod_beta split: sum.splits)

lemma gen_start_cases:
  "gen_start env s =
     (case fst (first_attempt env s) of
        Inr (p, c) \<Rightarrow> (Yielded c (AtYield1 p c), snd (first_attempt env s))
      | Inl e \<Rightarrow>
          if is_OperationalError e then
            (case fst (second_attempt env (reset_pool env (snd (first_attempt env s)))) of
               Inr (p, c) \<Rightarrow> (Yielded c (AtYield2 p c),
                  snd (second_attempt env (reset_pool env (snd (first_attempt env s)))))
             | Inl e2 \<Rightarrow> (Raised (retry_except e2),
                  snd (second_attempt env (reset_pool env (snd (first_attempt env s))))))
          else (Raised e, snd (first_attempt env s)))"
  by (simp add: gen_start_def outer_except_def case_prod_beta split: sum.splits prod.splits)

lemma gen_start_counts:
  "count_of is_acquisition (snd (gen_start env s)) =
     count_of is_acquisition s +
       (case fst (gen_start env s) of Yielded c (AtYield1 p c') \<Rightarrow> 1 | Yielded c (AtYield2 p c') \<Rightarrow> 2
        | Raised e \<Rightarrow> (case fst (first_attempt env s) of Inl e1 \<Rightarrow> if is_OperationalError e1 then 2 else 1 | Inr x \<Rightarrow> 1)
        | Returned \<Rightarrow> 1)"
  by (simp add: gen_start_cases first_attempt_frame second_attempt_frame reset_pool_frame
       split: sum.splits prod.splits)

lemma gen_resume_counts:
  "count_of is_acquisition (snd (gen_resume env (AtYield2 p c) r s)) = count_of is_acquisition s"
  "count_of is_reset (snd (gen_resume env (AtYield2 p c) r s)) = count_of is_reset s"
  "count_of is_acquisition (snd (gen_resume env (AtYield1 p c) r s)) \<le> count_of is_acquisition s + 1"
  "count_of is_reset (snd (gen_resume env (AtYield1 p c) r s)) \<le> count_of is_reset s + 1"
  by (simp_all add: gen_resume.simps case_prod_beta putconn_frame outer_except_frame
      split: sum.splits resumption.splits)

lemma get_connection_pool_builds:
  "count_of is_pool_build (snd (get_connection_pool env s)) \<le> count_of is_pool_build s + 1"
  by (simp add: get_connection_pool_def and_then_def wrapper_defs case_prod_beta Let_def
      call_ext_frame update_frame mark_frame pool_frame get_fresh_token_frame
      split: sum.splits option.splits)

lemma attempt_builds:
  "count_of is_pool_build (snd (first_attempt env s)) \<le> count_of is_pool_build s + 1"
  "count_of is_lease (snd (first_attempt env s)) \<le> count_of is_lease s + 1"
  "count_of is_pool_build (snd (second_attempt env s)) \<le> count_of is_pool_build s + 1"
  "count_of is_lease (snd (second_attempt env s)) \<le> count_of is_lease s + 1"
  using get_connection_pool_builds [of env s]
  by (simp_all add: first_attempt_def second_attempt_def and_then_def case_prod_beta
      get_connection_pool_frame getconn_frame probe_frame putconn_frame split: sum.splits)

lemma reset_pool_builds:
  "count_of is_pool_build (reset_pool env s) = count_of is_pool_build s"
  "count_of is_lease (reset_pool env s) = count_of is_lease s"
  by (simp_all add: reset_pool_def closeall_def Let_def call_ext_frame update_frame mark_frame
      split: option.splits)

lemma gen_start_builds:
  "count_of is_pool_build (snd (gen_start env s)) \<le> count_of is_pool_build s + 2"
  "count_of is_lease (snd (gen_start env s)) \<le> count_of is_lease s + 2"
proof -
  let ?s1 = "snd (first_attempt env s)"
  let ?s2 = "snd (second_attempt env (reset_pool env ?s1))"
  have b: "count_of is_pool_build ?s2 \<le> count_of is_pool_build s + 2"
    using attempt_builds(1) [of env s] attempt_builds(3) [of env "reset_pool env ?s1"]
    by (simp add: reset_pool_builds)
  have l: "count_of is_lease ?s2 \<le> count_of is_lease s + 2"
    using attempt_builds(2) [of env s] attempt_builds(4) [of env "reset_pool env ?s1"]
    by (simp add: reset_pool_builds)
  show "count_of is_pool_build (snd (gen_start env s)) \<le> count_of is_pool_build s + 2"
    using b attempt_builds(1) [of env s]
    by (simp add: gen_start_cases split: sum.splits prod.splits)
  show "count_of is_lease (snd (gen_start env s)) \<le> count_of is_lease s + 2"
    using l attempt_builds(2) [of env s]
    by (simp add: gen_start_cases split: sum.splits prod.splits)
qed

text \<open>Everything a run on a concrete environment unfolds.\<close>

lemmas run_defs = gen_start_def first_attempt_def second_attempt_def outer_except_def
  retry_except_def get_connection_pool_def get_fresh_token_def reset_pool_def and_then_def
  call_ext_def wrapper_defs getconn_def putconn_def threaded_connection_pool_def mark_def
  Let_def with_connection_def gen_close_def gen_resume.simps execute_query_def
  connection_block_def cursor_block_def py_dict_def plain_format_def read_defs
  calm_env_def default_settings_def initial_state_def
  dead_connection_env_def lease_refused_env_def token_denied_env_def server_lost_env_def
  slow_server_env_def bad_statement_env_def broken_fetch_env_def instance_missing_env_def
  statement_timeout_env_def connection_dropped_env_def duplicate_key_env_def
  lost_again_env_def old_library_env_def did_not_stop_def
  idle_block_def failing_block_def

section \<open>The token cache of \<^verbatim>\<open>_get_fresh_token\<close>\<close>

lemma get_fresh_token_hit:
  "cache_valid env s \<Longrightarrow> token_cache_token s = Some t \<Longrightarrow>
     get_fresh_token env s = (Inr t, s\<lparr>trace := Time # trace s\<rparr>)"
  by (simp add: get_fresh_token_def cache_valid_def time_time_def call_ext_def Let_def)

lemma get_fresh_token_miss:
  "\<not> cache_valid env s \<Longrightarrow>
   ext_workspace_client env (WorkspaceClient # Time # trace s) = Inr () \<Longrightarrow>
   ext_database_credential env
     (GenerateDatabaseCredential (lakebase_instance_name (settings env)) #
      WorkspaceClient # Time # trace s) = Inr tok \<Longrightarrow>
   get_fresh_token env s =
     (Inr tok,
      s\<lparr>trace := GenerateDatabaseCredential (lakebase_instance_name (settings env)) #
           WorkspaceClient # Time # trace s,
        token_cache_token := Some tok,
        token_cache_expires_at :=
          ext_time env (Time # trace s) + real_of_int (token_refresh_interval (settings env))\<rparr>)"
  by (auto simp add: get_fresh_token_def cache_valid_def and_then_def call_ext_def wrapper_defs
      Let_def split: option.splits)

lemma get_fresh_token_issuances:
  "count_of is_issuance (snd (get_fresh_token env s)) \<le> count_of is_issuance s + 1"
  by (simp add: get_fresh_token_def and_then_def wrapper_defs case_prod_beta Let_def
      call_ext_frame update_frame split: sum.splits option.splits)

lemma get_token_calls_unexpired:
  "unexpired_during env n s \<Longrightarrow> token_cache_token s = Some t \<Longrightarrow>
   fst (get_token_calls env n s) = replicate n (Inr t) \<and>
   count_of is_issuance (snd (get_token_calls env n s)) = count_of is_issuance s"
proof (induction n arbitrary: s)
  case 0
  then show ?case by simp
next
  case (Suc n)
  from Suc.prems have valid: "cache_valid env s"
    by simp
  have step: "get_fresh_token env s = (Inr t, s\<lparr>trace := Time # trace s\<rparr>)"
    using valid Suc.prems(2) by (rule get_fresh_token_hit)
  from Suc.prems step have rest: "unexpired_during env n (s\<lparr>trace := Time # trace s\<rparr>)"
    by simp
  have "token_cache_token (s\<lparr>trace := Time # trace s\<rparr>) = Some t"
    using Suc.prems(2) by simp
  with Suc.IH [OF rest] step show ?case
    by (simp add: case_prod_beta count_of_def)
qed

text \<open>
  Claim C4. \<^verbatim>\<open>_get_fresh_token\<close> returns the cached token, calling nothing but the clock, when
  a token is cached (stored and not empty) and the clock is strictly before the cached
  expiry. Otherwise, when the provider answers, it calls the provider once, caches the token
  issued, sets the expiry to the clock plus the refresh interval and returns that token. One
  call issues at most one token, and in any run of calls that follow a first call while the
  cache stays valid, each returns the cached token and the provider is not called again: the
  whole sequence issues at most one token.
\<close>

theorem get_fresh_token_caches:
  "(cache_valid env s \<and> token_cache_token s = Some t \<longrightarrow>
      get_fresh_token env s = (Inr t, s\<lparr>trace := Time # trace s\<rparr>)) \<and>
   (\<not> cache_valid env s \<and>
    ext_workspace_client env (WorkspaceClient # Time # trace s) = Inr () \<and>
    ext_database_credential env
      (GenerateDatabaseCredential (lakebase_instance_name (settings env)) #
       WorkspaceClient # Time # trace s) = Inr tok \<longrightarrow>
      get_fresh_token env s =
        (Inr tok,
         s\<lparr>trace := GenerateDatabaseCredential (lakebase_instance_name (settings env)) #
              WorkspaceClient # Time # trace s,
           token_cache_token := Some tok,
           token_cache_expires_at :=
             ext_time env (Time # trace s) +
             real_of_int (token_refresh_interval (settings env))\<rparr>)) \<and>
   count_of is_issuance (snd (get_fresh_token env s)) \<le> count_of is_issuance s + 1 \<and>
   (unexpired_during env n (snd (get_fresh_token env s)) \<and>
    token_cache_token (snd (get_fresh_token env s)) = Some t' \<longrightarrow>
      fst (get_token_calls env n (snd (get_fresh_token env s))) = replicate n (Inr t') \<and>
      count_of is_issuance (snd (get_token_calls env n (snd (get_fresh_token env s)))) =
        count_of is_issuance (snd (get_fresh_token env s)) \<and>
      count_of is_issuance (snd (get_token_calls env (Suc n) s)) \<le> count_of is_issuance s + 1)"
proof (intro conjI impI)
  assume "cache_valid env s \<and> token_cache_token s = Some t"
  then show "get_fresh_token env s = (Inr t, s\<lparr>trace := Time # trace s\<rparr>)"
    by (simp add: get_fresh_token_hit)
next
  assume "\<not> cache_valid env s \<and>
    ext_workspace_client env (WorkspaceClient # Time # trace s) = Inr () \<and>
    ext_database_credential env
      (GenerateDatabaseCredential (lakebase_instance_name (settings env)) #
       WorkspaceClient # Time # trace s) = Inr tok"
  then show "get_fresh_token env s =
        (Inr tok,
         s\<lparr>trace := GenerateDatabaseCredential (lakebase_instance_name (settings env)) #
              WorkspaceClient # Time # trace s,
           token_cache_token := Some tok,
           token_cache_expires_at :=
             ext_time env (Time # trace s) +
             real_of_int (token_refresh_interval (settings env))\<rparr>)"
    by (simp add: get_fresh_token_miss)
next
  show "count_of is_issuance (snd (get_fresh_token env s)) \<le> count_of is_issuance s + 1"
    by (rule get_fresh_token_issuances)
next
  assume h: "unexpired_during env n (snd (get_fresh_token env s)) \<and>
    token_cache_token (snd (get_fresh_token env s)) = Some t'"
  then have later: "fst (get_token_calls env n (snd (get_fresh_token env s))) = replicate n (Inr t') \<and>
      count_of is_issuance (snd (get_token_calls env n (snd (get_fresh_token env s)))) =
        count_of is_issuance (snd (get_fresh_token env s))"
    by (simp add: get_token_calls_unexpired)
  from later show "fst (get_token_calls env n (snd (get_fresh_token env s))) = replicate n (Inr t')"
    by simp
  from later show "count_of is_issuance (snd (get_token_calls env n (snd (get_fresh_token env s)))) =
        count_of is_issuance (snd (get_fresh_token env s))"
    by simp
  from later get_fresh_token_issuances [of env s]
  show "count_of is_issuance (snd (get_token_calls env (Suc n) s)) \<le> count_of is_issuance s + 1"
    by (simp add: case_prod_beta)
qed

theorem get_fresh_token_caches_witness:
  "cache_valid calm_env (snd (get_fresh_token calm_env initial_state)) \<and>
   token_cache_token (snd (get_fresh_token calm_env initial_state)) = Some ''secret'' \<and>
   fst (get_fresh_token calm_env (snd (get_fresh_token calm_env initial_state))) = Inr ''secret'' \<and>
   \<not> cache_valid calm_env initial_state \<and>
   ext_workspace_client calm_env (WorkspaceClient # Time # trace initial_state) = Inr () \<and>
   ext_database_credential calm_env
     (GenerateDatabaseCredential (lakebase_instance_name (settings calm_env)) #
      WorkspaceClient # Time # trace initial_state) = Inr ''secret'' \<and>
   token_cache_expires_at (snd (get_fresh_token calm_env initial_state)) = 1000 \<and>
   unexpired_during calm_env (Suc (Suc 0)) (snd (get_fresh_token calm_env initial_state)) \<and>
   fst (get_token_calls calm_env (Suc (Suc 0)) (snd (get_fresh_token calm_env initial_state))) =
     [Inr ''secret'', Inr ''secret''] \<and>
   count_of is_issuance (snd (get_token_calls calm_env (Suc (Suc (Suc 0))) initial_state)) \<le> 1"
proof -
  let ?s = "snd (get_fresh_token calm_env initial_state)"
  have miss: "\<not> cache_valid calm_env initial_state \<and>
     ext_workspace_client calm_env (WorkspaceClient # Time # trace initial_state) = Inr () \<and>
     ext_database_credential calm_env
       (GenerateDatabaseCredential (lakebase_instance_name (settings calm_env)) #
        WorkspaceClient # Time # trace initial_state) = Inr ''secret''"
    by (simp add: cache_valid_def calm_env_def initial_state_def)
  have hit: "cache_valid calm_env ?s \<and> token_cache_token ?s = Some ''secret''"
    by (simp add: cache_valid_def run_defs)
  have during: "unexpired_during calm_env (Suc (Suc 0)) ?s"
    by (simp add: cache_valid_def run_defs)
  have zero: "count_of is_issuance initial_state = 0"
    by (simp add: run_defs)
  note T = get_fresh_token_caches [where env = calm_env]
  from T [where s = ?s and t = "''secret''"] hit
  have a: "fst (get_fresh_token calm_env ?s) = Inr ''secret''"
    by simp
  from T [where s = initial_state and tok = "''secret''"] miss
  have "get_fresh_token calm_env initial_state =
        (Inr ''secret'',
         initial_state\<lparr>trace :=
             GenerateDatabaseCredential (lakebase_instance_name (settings calm_env)) #
              WorkspaceClient # Time # trace initial_state,
           token_cache_token := Some ''secret'',
           token_cache_expires_at :=
             ext_time calm_env (Time # trace initial_state) +
             real_of_int (token_refresh_interval (settings calm_env))\<rparr>)"
    by blast
  then have b: "token_cache_expires_at ?s = 1000"
    by (simp add: calm_env_def default_settings_def)
  from T [where s = initial_state and n = "Suc (Suc 0)" and t' = "''secret''"] during hit
  have "fst (get_token_calls calm_env (Suc (Suc 0)) ?s) = replicate (Suc (Suc 0)) (Inr ''secret'') \<and>
     count_of is_issuance (snd (get_token_calls calm_env (Suc (Suc (Suc 0))) initial_state))
       \<le> count_of is_issuance initial_state + 1"
    by blast
  with zero have c: "fst (get_token_calls calm_env (Suc (Suc 0)) ?s) =
     [Inr ''secret'', Inr ''secret''] \<and>
     count_of is_issuance (snd (get_token_calls calm_env (Suc (Suc (Suc 0))) initial_state)) \<le> 1"
    by simp
  from miss hit during a b c show ?thesis by blast
qed

section \<open>What \<^verbatim>\<open>_get_connection_pool\<close> asks of the provider\<close>

lemma get_connection_pool_resolves:
  "ext_workspace_client env (WorkspaceClient # Enter_get_connection_pool # trace s) = Inr () \<Longrightarrow>
     count_of is_resolution (snd (get_connection_pool env s)) = count_of is_resolution s + 1"
  "fst (get_connection_pool env s) = Inr q \<Longrightarrow>
     count_of is_resolution (snd (get_connection_pool env s)) = count_of is_resolution s + 1"
  "fst (get_connection_pool env s) = Inr q \<Longrightarrow>
     count_of is_current_user (snd (get_connection_pool env s)) = count_of is_current_user s + 1"
  by (auto simp add: get_connection_pool_def and_then_def wrapper_defs case_prod_beta Let_def
      call_ext_frame update_frame mark_frame pool_frame get_fresh_token_frame
      split: sum.splits option.splits)

lemma get_connection_pool_cached:
  assumes "connection_pool s = Some p"
  shows "count_of is_issuance (snd (get_connection_pool env s)) = count_of is_issuance s"
    and "count_of is_pool_build (snd (get_connection_pool env s)) = count_of is_pool_build s"
    and "connection_pool (snd (get_connection_pool env s)) = Some p"
    and "pool_config (snd (get_connection_pool env s)) = pool_config s"
    and "token_cache_token (snd (get_connection_pool env s)) = token_cache_token s"
    and "token_cache_expires_at (snd (get_connection_pool env s)) = token_cache_expires_at s"
    and "fst (get_connection_pool env s) = Inr q \<Longrightarrow> q = p"
  using assms
  by (auto simp add: get_connection_pool_def and_then_def wrapper_defs case_prod_beta
      call_ext_frame mark_frame split: sum.splits)

lemma get_fresh_token_count:
  "count_of is_issuance (snd (get_fresh_token env s)) =
     count_of is_issuance s +
       (if cache_valid env s then 0
        else if ext_workspace_client env (WorkspaceClient # Time # trace s) = Inr () then 1
        else 0)"
  by (auto simp add: get_fresh_token_def cache_valid_def and_then_def wrapper_defs
      case_prod_beta Let_def call_ext_frame update_frame split: sum.splits option.splits)

lemma get_fresh_token_returns:
  "fst (get_fresh_token env s) = Inr tok \<Longrightarrow> \<not> cache_valid env s \<Longrightarrow>
     ext_workspace_client env (WorkspaceClient # Time # trace s) = Inr ()"
  by (auto simp add: get_fresh_token_def cache_valid_def and_then_def wrapper_defs
      case_prod_beta Let_def call_ext_frame split: sum.splits option.splits if_splits)


lemma and_then_call_ext:
  "and_then (call_ext answer ev) f s =
     (case answer (ev # trace s) of
        Inl e \<Rightarrow> (Inl e, s\<lparr>trace := ev # trace s\<rparr>)
      | Inr v \<Rightarrow> f v (s\<lparr>trace := ev # trace s\<rparr>))"
  by (simp add: and_then_def call_ext_def)

lemma get_connection_pool_without_handle:
  assumes "connection_pool s = None" and "fst (get_connection_pool env s) = Inr p"
  shows "\<exists>cfg. get_connection_pool env s =
           and_then (get_fresh_token env) (\<lambda>password.
           and_then (threaded_connection_pool env (pool_min_connections (settings env))
                       (pool_max_connections (settings env)) cfg password)
             (\<lambda>p s'. (Inr p, s'\<lparr>connection_pool := Some p\<rparr>)))
             (s\<lparr>trace := CurrentUserMe #
                  GetDatabaseInstance (lakebase_instance_name (settings env)) #
                  WorkspaceClient # Enter_get_connection_pool # trace s,
                pool_config := Some cfg\<rparr>)"
  using assms
  by (auto simp add: get_connection_pool_def and_then_call_ext wrapper_defs mark_def Let_def
      split: sum.splits)

lemma cache_valid_pool_config:
  "cache_valid env (s\<lparr>trace := tr, pool_config := cfg\<rparr>) = cache_valid env (s\<lparr>trace := tr\<rparr>)"
  by (simp add: cache_valid_def)

lemma get_connection_pool_built:
  assumes none: "connection_pool s = None" and ok: "fst (get_connection_pool env s) = Inr p"
  shows "count_of is_pool_build (snd (get_connection_pool env s)) = count_of is_pool_build s + 1"
    and "connection_pool (snd (get_connection_pool env s)) = Some p"
    and "count_of is_issuance (snd (get_connection_pool env s)) =
           count_of is_issuance s +
             (if cache_valid env
                   (s\<lparr>trace := CurrentUserMe #
                        GetDatabaseInstance (lakebase_instance_name (settings env)) #
                        WorkspaceClient # Enter_get_connection_pool # trace s\<rparr>)
              then 0 else 1)"
proof -
  let ?tr = "CurrentUserMe # GetDatabaseInstance (lakebase_instance_name (settings env)) #
      WorkspaceClient # Enter_get_connection_pool # trace s"
  from get_connection_pool_without_handle [OF none ok] obtain cfg
    where run: "get_connection_pool env s =
           and_then (get_fresh_token env) (\<lambda>password.
           and_then (threaded_connection_pool env (pool_min_connections (settings env))
                       (pool_max_connections (settings env)) cfg password)
             (\<lambda>p s'. (Inr p, s'\<lparr>connection_pool := Some p\<rparr>)))
             (s\<lparr>trace := ?tr, pool_config := Some cfg\<rparr>)"
    by blast
  let ?s1 = "s\<lparr>trace := ?tr, pool_config := Some cfg\<rparr>"
  from ok run obtain tok where tok: "fst (get_fresh_token env ?s1) = Inr tok"
    by (auto simp add: and_then_def case_prod_beta split: sum.splits)
  have before: "count_of is_pool_build ?s1 = count_of is_pool_build s"
    "count_of is_issuance ?s1 = count_of is_issuance s"
    "count_of is_pool_build (s\<lparr>trace := ?tr\<rparr>) = count_of is_pool_build s"
    "count_of is_issuance (s\<lparr>trace := ?tr\<rparr>) = count_of is_issuance s"
    by (simp_all add: count_of_def)
  have issued: "count_of is_issuance (snd (get_fresh_token env ?s1)) =
      count_of is_issuance s + (if cache_valid env (s\<lparr>trace := ?tr\<rparr>) then 0 else 1)"
    using get_fresh_token_returns [OF tok]
    by (simp add: get_fresh_token_count before cache_valid_pool_config del: One_nat_def)
  from ok run tok
  show "count_of is_pool_build (snd (get_connection_pool env s)) = count_of is_pool_build s + 1"
    by (simp add: and_then_def case_prod_beta pool_frame update_frame get_fresh_token_frame
        before split: sum.splits)
  from ok run tok show "connection_pool (snd (get_connection_pool env s)) = Some p"
    by (simp add: and_then_def case_prod_beta split: sum.splits)
  from ok run tok issued
  show "count_of is_issuance (snd (get_connection_pool env s)) =
           count_of is_issuance s + (if cache_valid env (s\<lparr>trace := ?tr\<rparr>) then 0 else 1)"
    by (simp add: and_then_def case_prod_beta pool_frame update_frame split: sum.splits)
qed

text \<open>
  Claim C3 says that \<^verbatim>\<open>_get_connection_pool\<close> resolves no endpoint when a pool handle
  exists, and issues exactly one token whenever none exists. Neither holds as stated. In
  the calm environment a second call, made with the handle of the first in place, returns
  that handle and has resolved the endpoint a second time. And when the first pool could not
  be built after its token was issued, the next call, still without a handle, builds the
  pool with the cached token and issues none.
\<close>

theorem get_connection_pool_resolves_with_handle:
  "connection_pool (snd (get_connection_pool calm_env initial_state)) = Some 7 \<and>
   fst (get_connection_pool calm_env (snd (get_connection_pool calm_env initial_state))) = Inr 7 \<and>
   count_of is_resolution (snd (get_connection_pool calm_env initial_state)) = 1 \<and>
   count_of is_resolution
     (snd (get_connection_pool calm_env (snd (get_connection_pool calm_env initial_state)))) = 2 \<and>
   connection_pool (snd (get_connection_pool slow_server_env initial_state)) = None \<and>
   fst (get_connection_pool slow_server_env
          (snd (get_connection_pool slow_server_env initial_state))) = Inr 13 \<and>
   count_of is_issuance (snd (get_connection_pool slow_server_env initial_state)) = 1 \<and>
   count_of is_issuance
     (snd (get_connection_pool slow_server_env
             (snd (get_connection_pool slow_server_env initial_state)))) = 1"
  by (simp add: run_defs)

text \<open>
  Claim C3, amended. \<^verbatim>\<open>_get_connection_pool\<close> resolves the endpoint on every call, before
  it looks at the pool handle: once the workspace client is there the instance is looked up,
  and a call that returns has looked up the instance and the current user exactly once each.
  The token issuer is asked only when no handle exists. With a handle in place the call
  issues no token and builds no pool, leaves the handle, the configuration snapshot and the
  token cache as they are, and what it returns is that handle. Without a handle, a call that
  returns a pool has built exactly one pool and stored its handle, and has issued exactly
  one token unless the token cache was still valid when the token was asked for, in which
  case it has issued none; after \<^verbatim>\<open>_reset_pool\<close> it is exactly one resolution, one token and
  one pool.
\<close>

theorem get_connection_pool_provider_use:
  "(ext_workspace_client env (WorkspaceClient # Enter_get_connection_pool # trace s) = Inr () \<longrightarrow>
      count_of is_resolution (snd (get_connection_pool env s)) = count_of is_resolution s + 1) \<and>
   (fst (get_connection_pool env s) = Inr q \<longrightarrow>
      count_of is_resolution (snd (get_connection_pool env s)) = count_of is_resolution s + 1 \<and>
      count_of is_current_user (snd (get_connection_pool env s)) =
        count_of is_current_user s + 1) \<and>
   (connection_pool s = Some p \<longrightarrow>
      count_of is_issuance (snd (get_connection_pool env s)) = count_of is_issuance s \<and>
      count_of is_pool_build (snd (get_connection_pool env s)) = count_of is_pool_build s \<and>
      connection_pool (snd (get_connection_pool env s)) = Some p \<and>
      pool_config (snd (get_connection_pool env s)) = pool_config s \<and>
      token_cache_token (snd (get_connection_pool env s)) = token_cache_token s \<and>
      token_cache_expires_at (snd (get_connection_pool env s)) = token_cache_expires_at s \<and>
      (fst (get_connection_pool env s) = Inr q \<longrightarrow> q = p)) \<and>
   (connection_pool s = None \<and> fst (get_connection_pool env s) = Inr p' \<longrightarrow>
      count_of is_pool_build (snd (get_connection_pool env s)) = count_of is_pool_build s + 1 \<and>
      connection_pool (snd (get_connection_pool env s)) = Some p' \<and>
      count_of is_issuance (snd (get_connection_pool env s)) =
        count_of is_issuance s +
          (if cache_valid env
                (s\<lparr>trace := CurrentUserMe #
                     GetDatabaseInstance (lakebase_instance_name (settings env)) #
                     WorkspaceClient # Enter_get_connection_pool # trace s\<rparr>)
           then 0 else 1)) \<and>
   (fst (get_connection_pool env (reset_pool env s)) = Inr p'' \<longrightarrow>
      count_of is_resolution (snd (get_connection_pool env (reset_pool env s))) =
        count_of is_resolution (reset_pool env s) + 1 \<and>
      count_of is_current_user (snd (get_connection_pool env (reset_pool env s))) =
        count_of is_current_user (reset_pool env s) + 1 \<and>
      count_of is_issuance (snd (get_connection_pool env (reset_pool env s))) =
        count_of is_issuance (reset_pool env s) + 1 \<and>
      count_of is_pool_build (snd (get_connection_pool env (reset_pool env s))) =
        count_of is_pool_build (reset_pool env s) + 1)"
proof (intro conjI impI)
  assume "ext_workspace_client env (WorkspaceClient # Enter_get_connection_pool # trace s) = Inr ()"
  then show "count_of is_resolution (snd (get_connection_pool env s)) =
      count_of is_resolution s + 1"
    by (rule get_connection_pool_resolves(1))
next
  assume r: "fst (get_connection_pool env s) = Inr q"
  then show "count_of is_resolution (snd (get_connection_pool env s)) =
      count_of is_resolution s + 1"
    by (rule get_connection_pool_resolves(2))
  from r show "count_of is_current_user (snd (get_connection_pool env s)) =
      count_of is_current_user s + 1"
    by (rule get_connection_pool_resolves(3))
next
  assume h: "connection_pool s = Some p"
  then show "count_of is_issuance (snd (get_connection_pool env s)) = count_of is_issuance s"
    and "count_of is_pool_build (snd (get_connection_pool env s)) = count_of is_pool_build s"
    and "connection_pool (snd (get_connection_pool env s)) = Some p"
    and "pool_config (snd (get_connection_pool env s)) = pool_config s"
    and "token_cache_token (snd (get_connection_pool env s)) = token_cache_token s"
    and "token_cache_expires_at (snd (get_connection_pool env s)) = token_cache_expires_at s"
    by (simp_all add: get_connection_pool_cached)
  assume "fst (get_connection_pool env s) = Inr q"
  with h show "q = p"
    by (rule get_connection_pool_cached(7))
next
  assume h: "connection_pool s = None \<and> fst (get_connection_pool env s) = Inr p'"
  then have none: "connection_pool s = None" and ok: "fst (get_connection_pool env s) = Inr p'"
    by simp_all
  from none ok
  show "count_of is_pool_build (snd (get_connection_pool env s)) = count_of is_pool_build s + 1"
    by (rule get_connection_pool_built(1))
  from none ok show "connection_pool (snd (get_connection_pool env s)) = Some p'"
    by (rule get_connection_pool_built(2))
  from none ok
  show "count_of is_issuance (snd (get_connection_pool env s)) =
        count_of is_issuance s +
          (if cache_valid env
                (s\<lparr>trace := CurrentUserMe #
                     GetDatabaseInstance (lakebase_instance_name (settings env)) #
                     WorkspaceClient # Enter_get_connection_pool # trace s\<rparr>)
           then 0 else 1)"
    by (rule get_connection_pool_built(3))
next
  assume ok: "fst (get_connection_pool env (reset_pool env s)) = Inr p''"
  have none: "connection_pool (reset_pool env s) = None"
    by (simp add: reset_pool_frame)
  have stale: "\<not> cache_valid env ((reset_pool env s)\<lparr>trace := tr\<rparr>)" for tr
    by (simp add: cache_valid_def reset_pool_frame)
  from ok show "count_of is_resolution (snd (get_connection_pool env (reset_pool env s))) =
        count_of is_resolution (reset_pool env s) + 1"
    by (rule get_connection_pool_resolves(2))
  from ok show "count_of is_current_user (snd (get_connection_pool env (reset_pool env s))) =
        count_of is_current_user (reset_pool env s) + 1"
    by (rule get_connection_pool_resolves(3))
  from get_connection_pool_built(3) [OF none ok] stale
  show "count_of is_issuance (snd (get_connection_pool env (reset_pool env s))) =
        count_of is_issuance (reset_pool env s) + 1"
    by simp
  from none ok
  show "count_of is_pool_build (snd (get_connection_pool env (reset_pool env s))) =
        count_of is_pool_build (reset_pool env s) + 1"
    by (rule get_connection_pool_built(1))
qed

theorem get_connection_pool_provider_use_witness:
  "connection_pool (snd (get_connection_pool calm_env initial_state)) = Some 7 \<and>
   ext_workspace_client calm_env
     (WorkspaceClient # Enter_get_connection_pool #
      trace (snd (get_connection_pool calm_env initial_state))) = Inr () \<and>
   fst (get_connection_pool calm_env (snd (get_connection_pool calm_env initial_state))) = Inr 7 \<and>
   count_of is_issuance
     (snd (get_connection_pool calm_env (snd (get_connection_pool calm_env initial_state)))) = 1 \<and>
   count_of is_resolution
     (snd (get_connection_pool calm_env (snd (get_connection_pool calm_env initial_state)))) = 1 + 1 \<and>
   count_of is_current_user
     (snd (get_connection_pool calm_env (snd (get_connection_pool calm_env initial_state)))) = 1 + 1 \<and>
   connection_pool initial_state = None \<and>
   fst (get_connection_pool calm_env initial_state) = Inr 7 \<and>
   count_of is_issuance (snd (get_connection_pool calm_env initial_state)) = 0 + 1 \<and>
   count_of is_pool_build (snd (get_connection_pool calm_env initial_state)) = 0 + 1 \<and>
   connection_pool (snd (get_connection_pool slow_server_env initial_state)) = None \<and>
   fst (get_connection_pool slow_server_env
          (snd (get_connection_pool slow_server_env initial_state))) = Inr 13 \<and>
   count_of is_issuance
     (snd (get_connection_pool slow_server_env
             (snd (get_connection_pool slow_server_env initial_state)))) = 1 + 0 \<and>
   fst (get_connection_pool calm_env
          (reset_pool calm_env (snd (get_connection_pool calm_env initial_state)))) = Inr 17 \<and>
   count_of is_issuance
     (snd (get_connection_pool calm_env
             (reset_pool calm_env (snd (get_connection_pool calm_env initial_state))))) = 1 + 1"
proof -
  let ?s = "snd (get_connection_pool calm_env initial_state)"
  let ?tr = "\<lambda>env s. CurrentUserMe # GetDatabaseInstance (lakebase_instance_name (settings env)) #
      WorkspaceClient # Enter_get_connection_pool # trace s"
  have h1: "connection_pool ?s = Some 7"
    and w1: "ext_workspace_client calm_env
       (WorkspaceClient # Enter_get_connection_pool # trace ?s) = Inr ()"
    and r1: "fst (get_connection_pool calm_env ?s) = Inr 7"
    and n1: "count_of is_issuance ?s = 1" "count_of is_resolution ?s = 1"
      "count_of is_current_user ?s = 1"
    by (simp_all add: run_defs)
  note T = get_connection_pool_provider_use [where env = calm_env]
  from T [where s = ?s and p = 7 and q = 7] h1 r1 w1
  have "count_of is_issuance (snd (get_connection_pool calm_env ?s)) = count_of is_issuance ?s \<and>
     count_of is_resolution (snd (get_connection_pool calm_env ?s)) = count_of is_resolution ?s + 1 \<and>
     count_of is_current_user (snd (get_connection_pool calm_env ?s)) =
       count_of is_current_user ?s + 1"
    by blast
  with n1 have a: "count_of is_issuance (snd (get_connection_pool calm_env ?s)) = 1 \<and>
     count_of is_resolution (snd (get_connection_pool calm_env ?s)) = 1 + 1 \<and>
     count_of is_current_user (snd (get_connection_pool calm_env ?s)) = 1 + 1"
    by simp
  have h2: "connection_pool initial_state = None \<and>
     fst (get_connection_pool calm_env initial_state) = Inr 7"
    and n2: "count_of is_pool_build initial_state = 0" "count_of is_issuance initial_state = 0"
    and v2: "\<not> cache_valid calm_env (initial_state\<lparr>trace := ?tr calm_env initial_state\<rparr>)"
    by (simp_all add: run_defs cache_valid_def)
  from T [where s = initial_state and p' = 7] h2
  have "count_of is_pool_build ?s = count_of is_pool_build initial_state + 1 \<and>
     count_of is_issuance ?s =
       count_of is_issuance initial_state +
         (if cache_valid calm_env (initial_state\<lparr>trace := ?tr calm_env initial_state\<rparr>)
          then 0 else 1)"
    by blast
  with n2 v2 have b: "count_of is_issuance ?s = 0 + 1 \<and> count_of is_pool_build ?s = 0 + 1"
    by simp
  let ?u = "snd (get_connection_pool slow_server_env initial_state)"
  have h3: "connection_pool ?u = None \<and> fst (get_connection_pool slow_server_env ?u) = Inr 13"
    and n3: "count_of is_issuance ?u = 1"
    and v3: "cache_valid slow_server_env (?u\<lparr>trace := ?tr slow_server_env ?u\<rparr>)"
    by (simp_all add: run_defs cache_valid_def)
  from get_connection_pool_provider_use [where env = slow_server_env and s = ?u and p' = 13] h3
  have "count_of is_issuance (snd (get_connection_pool slow_server_env ?u)) =
       count_of is_issuance ?u +
         (if cache_valid slow_server_env (?u\<lparr>trace := ?tr slow_server_env ?u\<rparr>)
          then 0 else 1)"
    by blast
  with n3 v3 have c: "count_of is_issuance (snd (get_connection_pool slow_server_env ?u)) = 1 + 0"
    by simp
  have h4: "fst (get_connection_pool calm_env (reset_pool calm_env ?s)) = Inr 17"
    and n4: "count_of is_issuance (reset_pool calm_env ?s) = 1"
    by (simp_all add: run_defs)
  from T [where s = ?s and p'' = 17] h4
  have "count_of is_issuance (snd (get_connection_pool calm_env (reset_pool calm_env ?s))) =
     count_of is_issuance (reset_pool calm_env ?s) + 1"
    by blast
  with n4 have d: "count_of is_issuance
     (snd (get_connection_pool calm_env (reset_pool calm_env ?s))) = 1 + 1"
    by simp
  from h1 w1 r1 a h2 b h3 c h4 d show ?thesis
    by blast
qed

section \<open>The retry protocol of \<^verbatim>\<open>get_connection\<close>\<close>

lemma reset_pool_trace:
  "trace (reset_pool env s) =
     (case connection_pool s of
        None \<Rightarrow> [Enter_reset_pool]
      | Some p \<Rightarrow> [CloseAll p, Enter_reset_pool]) @ trace s"
  by (simp add: reset_pool_def closeall_def call_ext_def mark_def Let_def split: option.splits)

lemma reset_pool_cleared:
  "connection_pool (reset_pool env s) = None"
  "token_cache_token (reset_pool env s) = None"
  "token_cache_expires_at (reset_pool env s) = 0"
  by (simp_all add: reset_pool_def Let_def split: option.splits)

lemma reset_pool_provider_counts:
  "count_of is_resolution (reset_pool env s) = count_of is_resolution s"
  "count_of is_issuance (reset_pool env s) = count_of is_issuance s"
  "count_of is_pool_build (reset_pool env s) = count_of is_pool_build s"
  by (simp_all add: count_of_def reset_pool_trace split: option.splits)

lemma second_attempt_rebuilds:
  assumes "second_attempt env (reset_pool env sf) = (Inr (p, c), s2)"
  shows "connection_pool s2 = Some p \<and>
         count_of is_resolution s2 = count_of is_resolution sf + 1 \<and>
         count_of is_issuance s2 = count_of is_issuance sf + 1 \<and>
         count_of is_pool_build s2 = count_of is_pool_build sf + 1 \<and>
         leased s2 = (p, c) # leased sf"
proof -
  let ?r = "reset_pool env sf"
  let ?g = "snd (get_connection_pool env ?r)"
  from assms have ok: "fst (get_connection_pool env ?r) = Inr p"
    and lease: "fst (getconn env p ?g) = Inr c"
    and s2: "s2 = snd (getconn env p ?g)"
    by (auto simp add: second_attempt_def and_then_def case_prod_beta split: sum.splits)
  have none: "connection_pool ?r = None"
    by (rule reset_pool_cleared)
  have stale: "\<not> cache_valid env (?r\<lparr>trace := tr\<rparr>)" for tr
    by (simp add: cache_valid_def reset_pool_cleared)
  have handle: "connection_pool s2 = Some p"
    using get_connection_pool_built(2) [OF none ok]
    by (simp add: s2 getconn_def call_ext_def case_prod_beta split: sum.splits)
  have "count_of is_resolution ?g = count_of is_resolution ?r + 1"
    using ok by (rule get_connection_pool_resolves(2))
  then have resolved: "count_of is_resolution s2 = count_of is_resolution sf + 1"
    by (simp add: s2 getconn_frame reset_pool_provider_counts)
  have "count_of is_issuance ?g = count_of is_issuance ?r + 1"
    using get_connection_pool_built(3) [OF none ok] stale by simp
  then have issued: "count_of is_issuance s2 = count_of is_issuance sf + 1"
    by (simp add: s2 getconn_frame reset_pool_provider_counts)
  have "count_of is_pool_build ?g = count_of is_pool_build ?r + 1"
    using none ok by (rule get_connection_pool_built(1))
  then have built: "count_of is_pool_build s2 = count_of is_pool_build sf + 1"
    by (simp add: s2 getconn_frame reset_pool_provider_counts)
  have leased: "leased s2 = (p, c) # leased sf"
    using lease by (simp add: s2 getconn_frame get_connection_pool_frame reset_pool_frame)
  from handle resolved issued built leased show ?thesis
    by blast
qed

text \<open>
  Claim C1 says that a connectivity-class error raised in the first attempt, while the pool
  is acquired among others, starts the recovery cycle. Acquiring the pool resolves the
  endpoint and issues the token, and the spec counts the failure of either as a connectivity
  error; the code handles neither. When the provider cannot find the instance, nothing else
  failing, \<^verbatim>\<open>_get_connection_pool\<close> raises the provider's exception, and so does the
  generator: no reset has happened and the pool was asked for once.
\<close>

theorem endpoint_failure_not_retried:
  "fst (get_connection_pool instance_missing_env initial_state) =
     Inl (OtherException ''NotFound'') \<and>
   fst (gen_start instance_missing_env initial_state) = Raised (OtherException ''NotFound'') \<and>
   count_of is_reset (snd (gen_start instance_missing_env initial_state)) = 0 \<and>
   count_of is_acquisition (snd (gen_start instance_missing_env initial_state)) = 1"
  by (simp add: run_defs)

text \<open>
  Claim C1, amended. The first attempt of \<^verbatim>\<open>get_connection\<close> (acquire the pool, lease, probe)
  ends in the exception that the acquisition or the lease raises, or in the one the probe
  raises when the connection can be returned. When it ends in a
  \<^verbatim>\<open>psycopg2.OperationalError\<close>, as pool construction, lease and probe raise, exactly one
  recovery cycle runs. The reset closes the pool if there is one and clears the handle and
  the token cache. The second attempt (acquire, lease) runs once and without a probe: when
  it succeeds it has resolved the endpoint, issued a token and built a pool afresh, holds
  the one new lease, and the generator yields the new connection from the second
  \<^verbatim>\<open>yield\<close>; when it raises an \<^verbatim>\<open>OperationalError\<close> the generator raises
  \<^verbatim>\<open>DatabaseConnectionError\<close> with its message. When the first attempt ends in an exception
  of any other class, as the provider raises when endpoint resolution or token issuance
  fails, no recovery cycle runs and the generator raises that exception. Whatever happens,
  the generator builds at most two pools and asks for at most two leases before it yields or
  raises, and one run of it, from its start through its resumption after the caller's block,
  enters \<^verbatim>\<open>_get_connection_pool\<close> at most twice.
\<close>

theorem get_connection_retries_once:
  "(first_attempt env s = (Inl e, sf) \<and> is_OperationalError e \<longrightarrow>
      gen_start env s =
        (case second_attempt env (reset_pool env sf) of
           (Inr (p, c), s2) \<Rightarrow> (Yielded c (AtYield2 p c), s2)
         | (Inl e2, s2) \<Rightarrow>
             (Raised (if is_OperationalError e2 then DatabaseConnectionError (Some (str_exn e2))
                      else e2), s2)) \<and>
      count_of is_reset (snd (gen_start env s)) = count_of is_reset s + 1 \<and>
      count_of is_acquisition (snd (gen_start env s)) = count_of is_acquisition s + 2 \<and>
      count_of is_probe (snd (gen_start env s)) = count_of is_probe sf) \<and>
   count_of is_acquisition (snd (gen_start env s)) \<le> count_of is_acquisition s + 2 \<and>
   count_of is_pool_build (snd (gen_start env s)) \<le> count_of is_pool_build s + 2 \<and>
   count_of is_lease (snd (gen_start env s)) \<le> count_of is_lease s + 2 \<and>
   (fst (gen_start env s) = Yielded c pt \<longrightarrow>
      count_of is_acquisition (snd (gen_start env s)) +
      count_of is_acquisition (snd (gen_resume env pt r s')) \<le>
        count_of is_acquisition s + count_of is_acquisition s' + 2) \<and>
   (get_connection_pool env s = (Inl e', sg) \<longrightarrow> first_attempt env s = (Inl e', sg)) \<and>
   (get_connection_pool env s = (Inr q, sg) \<and> getconn env q sg = (Inl e', sl) \<longrightarrow>
      first_attempt env s = (Inl e', sl)) \<and>
   (get_connection_pool env s = (Inr q, sg) \<and> getconn env q sg = (Inr k, sl) \<and>
    probe env k sl = (Inl e', sp) \<and> putconn env q k sp = (Inr (), sq) \<longrightarrow>
      first_attempt env s = (Inl e', sq)) \<and>
   (first_attempt env s = (Inl e, sf) \<and> \<not> is_OperationalError e \<longrightarrow>
      gen_start env s = (Raised e, sf)) \<and>
   trace (reset_pool env sf) =
     (case connection_pool sf of
        None \<Rightarrow> [Enter_reset_pool]
      | Some p0 \<Rightarrow> [CloseAll p0, Enter_reset_pool]) @ trace sf \<and>
   connection_pool (reset_pool env sf) = None \<and>
   token_cache_token (reset_pool env sf) = None \<and>
   token_cache_expires_at (reset_pool env sf) = 0 \<and>
   (second_attempt env (reset_pool env sf) = (Inr (p2, c2), s2) \<longrightarrow>
      connection_pool s2 = Some p2 \<and>
      count_of is_resolution s2 = count_of is_resolution sf + 1 \<and>
      count_of is_issuance s2 = count_of is_issuance sf + 1 \<and>
      count_of is_pool_build s2 = count_of is_pool_build sf + 1 \<and>
      leased s2 = (p2, c2) # leased sf)"
proof (intro conjI impI)
  assume h: "first_attempt env s = (Inl e, sf) \<and> is_OperationalError e"
  then have f: "fst (first_attempt env s) = Inl e" and sf: "sf = snd (first_attempt env s)"
    and op: "is_OperationalError e"
    by simp_all
  show "gen_start env s =
        (case second_attempt env (reset_pool env sf) of
           (Inr (p, c), s2) \<Rightarrow> (Yielded c (AtYield2 p c), s2)
         | (Inl e2, s2) \<Rightarrow>
             (Raised (if is_OperationalError e2 then DatabaseConnectionError (Some (str_exn e2))
                      else e2), s2))"
    unfolding sf using f op
    by (simp add: gen_start_cases retry_except_def split: sum.splits prod.splits)
  show "count_of is_reset (snd (gen_start env s)) = count_of is_reset s + 1"
    using f op
    by (simp add: gen_start_cases first_attempt_frame second_attempt_frame reset_pool_frame
        split: sum.splits prod.splits)
  show "count_of is_acquisition (snd (gen_start env s)) = count_of is_acquisition s + 2"
    using f op
    by (simp add: gen_start_cases first_attempt_frame second_attempt_frame reset_pool_frame
        split: sum.splits prod.splits)
  show "count_of is_probe (snd (gen_start env s)) = count_of is_probe sf"
    unfolding sf using f op
    by (simp add: gen_start_cases first_attempt_frame second_attempt_frame reset_pool_frame
        split: sum.splits prod.splits)
next
  show "count_of is_acquisition (snd (gen_start env s)) \<le> count_of is_acquisition s + 2"
    by (simp add: gen_start_counts split: gen_result.splits gen_point.splits sum.splits)
next
  show "count_of is_pool_build (snd (gen_start env s)) \<le> count_of is_pool_build s + 2"
    by (rule gen_start_builds)
next
  show "count_of is_lease (snd (gen_start env s)) \<le> count_of is_lease s + 2"
    by (rule gen_start_builds)
next
  assume y: "fst (gen_start env s) = Yielded c pt"
  show "count_of is_acquisition (snd (gen_start env s)) +
      count_of is_acquisition (snd (gen_resume env pt r s')) \<le>
        count_of is_acquisition s + count_of is_acquisition s' + 2"
  proof (cases pt)
    case (AtYield1 p c')
    with y gen_resume_counts(3)[of env p c' r s'] show ?thesis
      by (simp add: gen_start_counts)
  next
    case (AtYield2 p c')
    with y show ?thesis
      by (simp add: gen_start_counts gen_resume_counts)
  qed
next
  assume "get_connection_pool env s = (Inl e', sg)"
  then show "first_attempt env s = (Inl e', sg)"
    by (simp add: first_attempt_def and_then_def)
next
  assume "get_connection_pool env s = (Inr q, sg) \<and> getconn env q sg = (Inl e', sl)"
  then show "first_attempt env s = (Inl e', sl)"
    by (simp add: first_attempt_def and_then_def)
next
  assume "get_connection_pool env s = (Inr q, sg) \<and> getconn env q sg = (Inr k, sl) \<and>
    probe env k sl = (Inl e', sp) \<and> putconn env q k sp = (Inr (), sq)"
  then show "first_attempt env s = (Inl e', sq)"
    by (simp add: first_attempt_def and_then_def)
next
  assume "first_attempt env s = (Inl e, sf) \<and> \<not> is_OperationalError e"
  then show "gen_start env s = (Raised e, sf)"
    by (simp add: gen_start_def outer_except_def)
next
  show "trace (reset_pool env sf) =
     (case connection_pool sf of
        None \<Rightarrow> [Enter_reset_pool]
      | Some p0 \<Rightarrow> [CloseAll p0, Enter_reset_pool]) @ trace sf"
    by (rule reset_pool_trace)
next
  show "connection_pool (reset_pool env sf) = None"
    by (rule reset_pool_cleared)
next
  show "token_cache_token (reset_pool env sf) = None"
    by (rule reset_pool_cleared)
next
  show "token_cache_expires_at (reset_pool env sf) = 0"
    by (rule reset_pool_cleared)
next
  assume h: "second_attempt env (reset_pool env sf) = (Inr (p2, c2), s2)"
  from second_attempt_rebuilds [OF h]
  show "connection_pool s2 = Some p2"
    and "count_of is_resolution s2 = count_of is_resolution sf + 1"
    and "count_of is_issuance s2 = count_of is_issuance sf + 1"
    and "count_of is_pool_build s2 = count_of is_pool_build sf + 1"
    and "leased s2 = (p2, c2) # leased sf"
    by simp_all
qed

theorem get_connection_retries_once_witness:
  "first_attempt lease_refused_env initial_state =
     (Inl (OperationalError ''connection refused''),
      snd (first_attempt lease_refused_env initial_state)) \<and>
   is_OperationalError (OperationalError ''connection refused'') \<and>
   fst (gen_start lease_refused_env initial_state) =
     Raised (DatabaseConnectionError (Some ''connection refused'')) \<and>
   count_of is_reset (snd (gen_start lease_refused_env initial_state)) = 1 \<and>
   count_of is_acquisition (snd (gen_start lease_refused_env initial_state)) = 2 \<and>
   count_of is_probe (snd (gen_start lease_refused_env initial_state)) = 0 \<and>
   fst (gen_start calm_env initial_state) = Yielded 3 (AtYield1 7 3) \<and>
   count_of is_acquisition (snd (gen_start calm_env initial_state)) +
   count_of is_acquisition
     (snd (gen_resume calm_env (AtYield1 7 3) Next (snd (gen_start calm_env initial_state))))
     \<le> 0 + 1 + 2 \<and>
   fst (get_connection_pool token_denied_env initial_state) =
     Inl (OtherException ''PermissionDenied'') \<and>
   fst (first_attempt token_denied_env initial_state) = Inl (OtherException ''PermissionDenied'') \<and>
   fst (get_connection_pool lease_refused_env initial_state) = Inr 7 \<and>
   fst (getconn lease_refused_env 7 (snd (get_connection_pool lease_refused_env initial_state))) =
     Inl (OperationalError ''connection refused'') \<and>
   fst (get_connection_pool dead_connection_env initial_state) = Inr 7 \<and>
   fst (getconn dead_connection_env 7
          (snd (get_connection_pool dead_connection_env initial_state))) = Inr 3 \<and>
   fst (probe dead_connection_env 3
          (snd (getconn dead_connection_env 7
                  (snd (get_connection_pool dead_connection_env initial_state))))) =
     Inl (OperationalError ''server closed the connection unexpectedly'') \<and>
   fst (putconn dead_connection_env 7 3
          (snd (probe dead_connection_env 3
                  (snd (getconn dead_connection_env 7
                          (snd (get_connection_pool dead_connection_env initial_state))))))) =
     Inr () \<and>
   fst (first_attempt dead_connection_env initial_state) =
     Inl (OperationalError ''server closed the connection unexpectedly'') \<and>
   \<not> is_OperationalError (OtherException ''PermissionDenied'') \<and>
   fst (gen_start token_denied_env initial_state) = Raised (OtherException ''PermissionDenied'') \<and>
   fst (second_attempt dead_connection_env
          (reset_pool dead_connection_env (snd (first_attempt dead_connection_env initial_state)))) =
     Inr (20, 3) \<and>
   connection_pool (snd (first_attempt dead_connection_env initial_state)) = Some 7 \<and>
   trace (reset_pool dead_connection_env (snd (first_attempt dead_connection_env initial_state))) =
     [CloseAll 7, Enter_reset_pool] @
     trace (snd (first_attempt dead_connection_env initial_state)) \<and>
   fst (gen_start dead_connection_env initial_state) = Yielded 3 (AtYield2 20 3) \<and>
   connection_pool (snd (gen_start dead_connection_env initial_state)) = Some 20 \<and>
   count_of is_pool_build (snd (gen_start dead_connection_env initial_state)) = 1 + 1 \<and>
   count_of is_issuance (snd (gen_start dead_connection_env initial_state)) = 1 + 1 \<and>
   leased (snd (gen_start dead_connection_env initial_state)) = [(20, 3)]"
proof -
  let ?sf = "snd (first_attempt lease_refused_env initial_state)"
  have h: "first_attempt lease_refused_env initial_state =
     (Inl (OperationalError ''connection refused''), ?sf) \<and>
   is_OperationalError (OperationalError ''connection refused'')"
    by (simp add: run_defs)
  have y: "fst (gen_start calm_env initial_state) = Yielded 3 (AtYield1 7 3)"
    by (simp add: run_defs)
  have z: "count_of is_acquisition initial_state = 0" "count_of is_reset initial_state = 0"
    "count_of is_probe ?sf = 0"
    by (simp_all add: run_defs)
  have r: "fst (second_attempt lease_refused_env (reset_pool lease_refused_env ?sf))
            = Inl (OperationalError ''connection refused'')"
    by (simp add: run_defs)
  note T = get_connection_retries_once [where env = lease_refused_env and s = initial_state
      and e = "OperationalError ''connection refused''" and sf = ?sf]
  from T h have g: "gen_start lease_refused_env initial_state =
        (case second_attempt lease_refused_env (reset_pool lease_refused_env ?sf) of
           (Inr (p, c), s2) \<Rightarrow> (Yielded c (AtYield2 p c), s2)
         | (Inl e2, s2) \<Rightarrow>
             (Raised (if is_OperationalError e2 then DatabaseConnectionError (Some (str_exn e2))
                      else e2), s2))"
    by blast
  have a1: "fst (gen_start lease_refused_env initial_state) =
     Raised (DatabaseConnectionError (Some ''connection refused''))"
    using r by (simp add: g case_prod_beta)
  from T h have "count_of is_reset (snd (gen_start lease_refused_env initial_state)) =
      count_of is_reset initial_state + 1"
    by blast
  with z have a2: "count_of is_reset (snd (gen_start lease_refused_env initial_state)) = 1"
    by simp
  from T h have "count_of is_acquisition (snd (gen_start lease_refused_env initial_state)) =
      count_of is_acquisition initial_state + 2"
    by blast
  with z have a3: "count_of is_acquisition (snd (gen_start lease_refused_env initial_state)) = 2"
    by simp
  from T h have "count_of is_probe (snd (gen_start lease_refused_env initial_state)) =
      count_of is_probe ?sf"
    by blast
  with z have a4: "count_of is_probe (snd (gen_start lease_refused_env initial_state)) = 0"
    by simp
  from get_connection_retries_once [where env = calm_env and s = initial_state and c = 3
      and pt = "AtYield1 7 3" and r = Next and s' = "snd (gen_start calm_env initial_state)"] y
  have "count_of is_acquisition (snd (gen_start calm_env initial_state)) +
   count_of is_acquisition
     (snd (gen_resume calm_env (AtYield1 7 3) Next (snd (gen_start calm_env initial_state))))
     \<le> count_of is_acquisition initial_state +
        count_of is_acquisition (snd (gen_start calm_env initial_state)) + 2"
    by blast
  moreover have "count_of is_acquisition (snd (gen_start calm_env initial_state)) = 1"
    by (simp add: run_defs)
  ultimately have b: "count_of is_acquisition (snd (gen_start calm_env initial_state)) +
   count_of is_acquisition
     (snd (gen_resume calm_env (AtYield1 7 3) Next (snd (gen_start calm_env initial_state))))
     \<le> 0 + 1 + 2"
    using z by simp
  let ?tg = "snd (get_connection_pool token_denied_env initial_state)"
  have t1: "fst (get_connection_pool token_denied_env initial_state) =
      Inl (OtherException ''PermissionDenied'')"
    by (simp add: run_defs)
  then have "get_connection_pool token_denied_env initial_state =
      (Inl (OtherException ''PermissionDenied''), ?tg)"
    by (simp add: prod_eq_iff)
  with get_connection_retries_once [where env = token_denied_env and s = initial_state
      and e' = "OtherException ''PermissionDenied''" and sg = ?tg]
  have "first_attempt token_denied_env initial_state =
      (Inl (OtherException ''PermissionDenied''), ?tg)"
    by blast
  then have t2: "fst (first_attempt token_denied_env initial_state) =
      Inl (OtherException ''PermissionDenied'')"
    by simp
  let ?lg = "snd (get_connection_pool lease_refused_env initial_state)"
  let ?ll = "snd (getconn lease_refused_env 7 ?lg)"
  have l1: "fst (get_connection_pool lease_refused_env initial_state) = Inr 7"
    and l2: "fst (getconn lease_refused_env 7 ?lg) = Inl (OperationalError ''connection refused'')"
    by (simp_all add: run_defs)
  then have "get_connection_pool lease_refused_env initial_state = (Inr 7, ?lg) \<and>
      getconn lease_refused_env 7 ?lg = (Inl (OperationalError ''connection refused''), ?ll)"
    by (simp add: prod_eq_iff)
  with get_connection_retries_once [where env = lease_refused_env and s = initial_state
      and q = 7 and sg = ?lg and e' = "OperationalError ''connection refused''" and sl = ?ll]
  have "first_attempt lease_refused_env initial_state =
      (Inl (OperationalError ''connection refused''), ?ll)"
    by blast
  let ?ec = "OperationalError ''server closed the connection unexpectedly''"
  let ?dg = "snd (get_connection_pool dead_connection_env initial_state)"
  let ?dl = "snd (getconn dead_connection_env 7 ?dg)"
  let ?dp = "snd (probe dead_connection_env 3 ?dl)"
  let ?dq = "snd (putconn dead_connection_env 7 3 ?dp)"
  have d1: "fst (get_connection_pool dead_connection_env initial_state) = Inr 7"
    and d2: "fst (getconn dead_connection_env 7 ?dg) = Inr 3"
    and d3: "fst (probe dead_connection_env 3 ?dl) = Inl ?ec"
    and d4: "fst (putconn dead_connection_env 7 3 ?dp) = Inr ()"
    by (simp_all add: run_defs)
  then have "get_connection_pool dead_connection_env initial_state = (Inr 7, ?dg) \<and>
      getconn dead_connection_env 7 ?dg = (Inr 3, ?dl) \<and>
      probe dead_connection_env 3 ?dl = (Inl ?ec, ?dp) \<and>
      putconn dead_connection_env 7 3 ?dp = (Inr (), ?dq)"
    by (simp add: prod_eq_iff)
  with get_connection_retries_once [where env = dead_connection_env and s = initial_state
      and q = 7 and sg = ?dg and k = 3 and sl = ?dl and e' = ?ec and sp = ?dp and sq = ?dq]
  have "first_attempt dead_connection_env initial_state = (Inl ?ec, ?dq)"
    by blast
  then have d5: "fst (first_attempt dead_connection_env initial_state) = Inl ?ec"
    by simp
  have n1: "\<not> is_OperationalError (OtherException ''PermissionDenied'')"
    by simp
  from \<open>first_attempt token_denied_env initial_state =
      (Inl (OtherException ''PermissionDenied''), ?tg)\<close> n1
    get_connection_retries_once [where env = token_denied_env and s = initial_state
      and e = "OtherException ''PermissionDenied''" and sf = ?tg]
  have "gen_start token_denied_env initial_state =
      (Raised (OtherException ''PermissionDenied''), ?tg)"
    by blast
  then have n2: "fst (gen_start token_denied_env initial_state) =
      Raised (OtherException ''PermissionDenied'')"
    by simp
  let ?r = "reset_pool dead_connection_env ?dq"
  let ?s2 = "snd (second_attempt dead_connection_env ?r)"
  note D = get_connection_retries_once [where env = dead_connection_env and s = initial_state
      and e = ?ec and sf = ?dq and ?p2.0 = 20 and ?c2.0 = 3 and ?s2.0 = ?s2]
  have first: "first_attempt dead_connection_env initial_state = (Inl ?ec, ?dq)"
    by fact
  have sq: "snd (first_attempt dead_connection_env initial_state) = ?dq"
    using first by simp
  have e1: "fst (second_attempt dead_connection_env ?r) = Inr (20, 3)"
    and e2: "connection_pool ?dq = Some 7"
    and e3: "count_of is_pool_build ?dq = 1" "count_of is_issuance ?dq = 1" "leased ?dq = []"
    by (simp_all add: run_defs)
  then have second: "second_attempt dead_connection_env ?r = (Inr (20, 3), ?s2)"
    by (simp add: prod_eq_iff)
  from D have "trace ?r =
     (case connection_pool ?dq of
        None \<Rightarrow> [Enter_reset_pool]
      | Some p0 \<Rightarrow> [CloseAll p0, Enter_reset_pool]) @ trace ?dq"
    by blast
  with e2 have e4: "trace ?r = [CloseAll 7, Enter_reset_pool] @ trace ?dq"
    by simp
  from D first have g2: "gen_start dead_connection_env initial_state =
        (case second_attempt dead_connection_env ?r of
           (Inr (p, c), s2) \<Rightarrow> (Yielded c (AtYield2 p c), s2)
         | (Inl e2, s2) \<Rightarrow>
             (Raised (if is_OperationalError e2 then DatabaseConnectionError (Some (str_exn e2))
                      else e2), s2))"
    by simp
  have start: "gen_start dead_connection_env initial_state = (Yielded 3 (AtYield2 20 3), ?s2)"
    using e1 by (simp add: g2 case_prod_beta)
  from D second have "connection_pool ?s2 = Some 20 \<and>
      count_of is_pool_build ?s2 = count_of is_pool_build ?dq + 1 \<and>
      count_of is_issuance ?s2 = count_of is_issuance ?dq + 1 \<and>
      leased ?s2 = (20, 3) # leased ?dq"
    by blast
  with e3 start have e5: "fst (gen_start dead_connection_env initial_state) =
        Yielded 3 (AtYield2 20 3) \<and>
      connection_pool (snd (gen_start dead_connection_env initial_state)) = Some 20 \<and>
      count_of is_pool_build (snd (gen_start dead_connection_env initial_state)) = 1 + 1 \<and>
      count_of is_issuance (snd (gen_start dead_connection_env initial_state)) = 1 + 1 \<and>
      leased (snd (gen_start dead_connection_env initial_state)) = [(20, 3)]"
    by simp
  from h y a1 a2 a3 a4 b t1 t2 l1 l2 d1 d2 d3 d4 d5 n1 n2 e1 e2 e4 e5 show ?thesis
    unfolding sq by blast
qed

section \<open>Which failures \<^verbatim>\<open>get_connection\<close> recovers from\<close>

lemma retry_except_not_operational: "retry_except e \<noteq> OperationalError m"
  by (cases e) (simp_all add: retry_except_def)

lemma outer_except_not_operational: "fst (outer_except env e s) \<noteq> Raised (OperationalError m)"
proof (cases "is_OperationalError e")
  case True
  then show ?thesis
    by (simp add: outer_except_def case_prod_beta retry_except_not_operational
        split: sum.splits)
next
  case False
  then show ?thesis
    by (cases e) (simp_all add: outer_except_def)
qed

lemma gen_start_not_operational: "fst (gen_start env s) \<noteq> Raised (OperationalError m)"
  by (simp add: gen_start_def case_prod_beta outer_except_not_operational split: sum.splits)

lemma gen_resume_not_operational: "fst (gen_resume env pt r s) \<noteq> Raised (OperationalError m)"
  by (cases pt)
     (simp_all add: gen_resume.simps case_prod_beta outer_except_not_operational
        retry_except_not_operational split: sum.splits resumption.splits)

lemma gen_close_not_operational: "fst (gen_close env pt s) \<noteq> Inl (OperationalError m)"
  by (auto simp add: gen_close_def case_prod_beta gen_resume_not_operational
      split: gen_result.splits)

lemma did_not_stop_not_operational:
  "fst (did_not_stop env message pt s) \<noteq> Inl (OperationalError m)"
  by (auto simp add: did_not_stop_def case_prod_beta gen_close_not_operational
      split: sum.splits)

lemma with_connection_not_operational:
  "fst (with_connection env body s) \<noteq> Inl (OperationalError m)"
  by (auto simp add: with_connection_def case_prod_beta gen_start_not_operational
      gen_resume_not_operational did_not_stop_not_operational
      split: gen_result.splits sum.splits)

text \<open>
  Claim C2 says that every connectivity error of the taxonomy, token issuance failure among
  them, is answered by one reset-and-retry and reaches the caller, if at all, as
  \<^verbatim>\<open>DatabaseConnectionError\<close>. It fails for the provider: when the provider refuses the
  token, its own exception reaches the caller, and neither a reset nor a second acquisition
  has happened.
\<close>

theorem provider_failure_not_recovered:
  "fst (with_connection token_denied_env idle_block initial_state) =
     Inl (OtherException ''PermissionDenied'') \<and>
   count_of is_reset (snd (with_connection token_denied_env idle_block initial_state)) = 0 \<and>
   count_of is_acquisition (snd (with_connection token_denied_env idle_block initial_state)) = 1"
  by (simp add: run_defs)

text \<open>
  Claim C2, amended. What decides is the class of the exception. An
  \<^verbatim>\<open>OperationalError\<close> never reaches the caller of \<^verbatim>\<open>get_connection\<close>. A first attempt that
  ends in an exception of another class (as the provider's SDK raises when token issuance
  or endpoint resolution fails) passes it on unchanged, in the state the attempt left:
  no reset, no retry. A first attempt that ends in an \<^verbatim>\<open>OperationalError\<close> (pool
  construction, lease, probe of a dead connection) is followed by the reset and the second
  attempt: when that succeeds, the caller's block runs on the new connection, after one
  reset and two acquisitions, and a block that ends normally gives its result to the caller
  once the connection is returned; when it fails, the caller sees
  \<^verbatim>\<open>DatabaseConnectionError\<close> with the message of the second error if that is an
  \<^verbatim>\<open>OperationalError\<close>, and the second exception itself otherwise.
\<close>

theorem connectivity_errors_by_class:
  "fst (with_connection env body s) \<noteq> Inl (OperationalError m) \<and>
   (first_attempt env s = (Inl e, sf) \<and> \<not> is_OperationalError e \<longrightarrow>
      with_connection env body s = (Inl e, sf)) \<and>
   (first_attempt env s = (Inl e, sf) \<and> is_OperationalError e \<and>
    second_attempt env (reset_pool env sf) = (Inl e2, sr) \<longrightarrow>
      with_connection env body s =
        (Inl (if is_OperationalError e2 then DatabaseConnectionError (Some (str_exn e2))
              else e2), sr)) \<and>
   (first_attempt env s = (Inl e, sf) \<and> is_OperationalError e \<and>
    second_attempt env (reset_pool env sf) = (Inr (p, c), sy) \<and>
    body c sy = (Inr v, sb) \<and> fst (putconn env p c sb) = Inr () \<longrightarrow>
      with_connection env body s = (Inr (Some v), snd (putconn env p c sb)) \<and>
      count_of is_reset sy = count_of is_reset s + 1 \<and>
      count_of is_acquisition sy = count_of is_acquisition s + 2)"
proof (intro conjI impI)
  show "fst (with_connection env body s) \<noteq> Inl (OperationalError m)"
    by (rule with_connection_not_operational)
next
  assume "first_attempt env s = (Inl e, sf) \<and> \<not> is_OperationalError e"
  then show "with_connection env body s = (Inl e, sf)"
    by (simp add: with_connection_def gen_start_def outer_except_def)
next
  assume "first_attempt env s = (Inl e, sf) \<and> is_OperationalError e \<and>
    second_attempt env (reset_pool env sf) = (Inl e2, sr)"
  then show "with_connection env body s =
        (Inl (if is_OperationalError e2 then DatabaseConnectionError (Some (str_exn e2))
              else e2), sr)"
    by (simp add: with_connection_def gen_start_def outer_except_def retry_except_def)
next
  assume h: "first_attempt env s = (Inl e, sf) \<and> is_OperationalError e \<and>
    second_attempt env (reset_pool env sf) = (Inr (p, c), sy) \<and>
    body c sy = (Inr v, sb) \<and> fst (putconn env p c sb) = Inr ()"
  then have start: "gen_start env s = (Yielded c (AtYield2 p c), sy)"
    by (simp add: gen_start_def outer_except_def)
  from h have resumed: "gen_resume env (AtYield2 p c) Next sb = (Returned, snd (putconn env p c sb))"
    by (cases "putconn env p c sb") (simp add: gen_resume.simps)
  from h start resumed
  show "with_connection env body s = (Inr (Some v), snd (putconn env p c sb))"
    by (simp add: with_connection_def)
  from h have sf: "sf = snd (first_attempt env s)"
    and sy: "sy = snd (second_attempt env (reset_pool env sf))"
    by simp_all
  show "count_of is_reset sy = count_of is_reset s + 1"
    unfolding sy sf by (simp add: first_attempt_frame second_attempt_frame reset_pool_frame)
  show "count_of is_acquisition sy = count_of is_acquisition s + 2"
    unfolding sy sf by (simp add: first_attempt_frame second_attempt_frame reset_pool_frame)
qed

theorem connectivity_errors_by_class_witness:
  "first_attempt token_denied_env initial_state =
     (Inl (OtherException ''PermissionDenied''),
      snd (first_attempt token_denied_env initial_state)) \<and>
   \<not> is_OperationalError (OtherException ''PermissionDenied'') \<and>
   with_connection token_denied_env idle_block initial_state =
     (Inl (OtherException ''PermissionDenied''),
      snd (first_attempt token_denied_env initial_state)) \<and>
   first_attempt lease_refused_env initial_state =
     (Inl (OperationalError ''connection refused''),
      snd (first_attempt lease_refused_env initial_state)) \<and>
   is_OperationalError (OperationalError ''connection refused'') \<and>
   second_attempt lease_refused_env
     (reset_pool lease_refused_env (snd (first_attempt lease_refused_env initial_state))) =
     (Inl (OperationalError ''connection refused''),
      snd (second_attempt lease_refused_env
        (reset_pool lease_refused_env (snd (first_attempt lease_refused_env initial_state))))) \<and>
   fst (with_connection lease_refused_env idle_block initial_state) =
     Inl (DatabaseConnectionError (Some ''connection refused'')) \<and>
   fst (first_attempt dead_connection_env initial_state) =
     Inl (OperationalError ''server closed the connection unexpectedly'') \<and>
   fst (second_attempt dead_connection_env
          (reset_pool dead_connection_env (snd (first_attempt dead_connection_env initial_state)))) =
     Inr (20, 3) \<and>
   fst (with_connection dead_connection_env idle_block initial_state) = Inr (Some ()) \<and>
   count_of is_reset (snd (gen_start dead_connection_env initial_state)) = 0 + 1"
proof -
  let ?sf = "snd (first_attempt token_denied_env initial_state)"
  let ?sl = "snd (first_attempt lease_refused_env initial_state)"
  let ?sr = "snd (second_attempt lease_refused_env (reset_pool lease_refused_env ?sl))"
  have h1: "first_attempt token_denied_env initial_state =
     (Inl (OtherException ''PermissionDenied''), ?sf) \<and>
     \<not> is_OperationalError (OtherException ''PermissionDenied'')"
    by (simp add: run_defs)
  have h2: "first_attempt lease_refused_env initial_state =
     (Inl (OperationalError ''connection refused''), ?sl) \<and>
     is_OperationalError (OperationalError ''connection refused'') \<and>
     second_attempt lease_refused_env (reset_pool lease_refused_env ?sl) =
     (Inl (OperationalError ''connection refused''), ?sr)"
    by (simp add: run_defs)
  from connectivity_errors_by_class [where env = token_denied_env and s = initial_state
      and e = "OtherException ''PermissionDenied''" and sf = ?sf and body = idle_block] h1
  have a: "with_connection token_denied_env idle_block initial_state =
     (Inl (OtherException ''PermissionDenied''), ?sf)"
    by blast
  from connectivity_errors_by_class [where env = lease_refused_env and s = initial_state
      and e = "OperationalError ''connection refused''" and sf = ?sl
      and ?e2.0 = "OperationalError ''connection refused''" and sr = ?sr
      and body = idle_block] h2
  have "with_connection lease_refused_env idle_block initial_state =
        (Inl (if is_OperationalError (OperationalError ''connection refused'')
              then DatabaseConnectionError (Some (str_exn (OperationalError ''connection refused'')))
              else OperationalError ''connection refused''), ?sr)"
    by blast
  then have b: "fst (with_connection lease_refused_env idle_block initial_state) =
     Inl (DatabaseConnectionError (Some ''connection refused''))"
    by simp
  let ?ec = "OperationalError ''server closed the connection unexpectedly''"
  let ?df = "snd (first_attempt dead_connection_env initial_state)"
  let ?dy = "snd (second_attempt dead_connection_env (reset_pool dead_connection_env ?df))"
  let ?db = "snd (idle_block 3 ?dy)"
  have d1: "fst (first_attempt dead_connection_env initial_state) = Inl ?ec"
    and d2: "fst (second_attempt dead_connection_env (reset_pool dead_connection_env ?df)) =
      Inr (20, 3)"
    and d3: "fst (idle_block 3 ?dy) = Inr ()"
    and d4: "fst (putconn dead_connection_env 20 3 ?db) = Inr ()"
    and d5: "count_of is_reset initial_state = 0"
    and d6: "snd (gen_start dead_connection_env initial_state) = ?dy"
    by (simp_all add: run_defs)
  then have "first_attempt dead_connection_env initial_state = (Inl ?ec, ?df) \<and>
      is_OperationalError ?ec \<and>
      second_attempt dead_connection_env (reset_pool dead_connection_env ?df) =
        (Inr (20, 3), ?dy) \<and>
      idle_block 3 ?dy = (Inr (), ?db) \<and>
      fst (putconn dead_connection_env 20 3 ?db) = Inr ()"
    by (simp add: prod_eq_iff)
  with connectivity_errors_by_class [where env = dead_connection_env and s = initial_state
      and e = ?ec and sf = ?df and p = 20 and c = 3 and sy = ?dy and body = idle_block
      and v = "()" and sb = ?db]
  have "with_connection dead_connection_env idle_block initial_state =
        (Inr (Some ()), snd (putconn dead_connection_env 20 3 ?db)) \<and>
      count_of is_reset ?dy = count_of is_reset initial_state + 1"
    by blast
  with d5 d6 have c: "fst (with_connection dead_connection_env idle_block initial_state) =
        Inr (Some ()) \<and>
      count_of is_reset (snd (gen_start dead_connection_env initial_state)) = 0 + 1"
    by simp
  from h1 h2 a b d1 d2 c show ?thesis by blast
qed

section \<open>Leases\<close>

lemma putconn_accepts:
  "(\<And>tr. ext_putconn env tr = Inr ()) \<Longrightarrow> fst (putconn env p c s) = Inr ()"
  by (simp add: putconn_def call_ext_def)

lemma first_attempt_leased:
  assumes "\<And>tr. ext_putconn env tr = Inr ()"
  shows "leased (snd (first_attempt env s)) =
     (case fst (first_attempt env s) of Inr (p, c) \<Rightarrow> (p, c) # leased s | Inl e \<Rightarrow> leased s)"
  by (simp add: first_attempt_def and_then_def case_prod_beta putconn_accepts [OF assms]
      get_connection_pool_frame getconn_frame probe_frame putconn_frame split: sum.splits)

lemma second_attempt_leased:
  "leased (snd (second_attempt env s)) =
     (case fst (second_attempt env s) of Inr (p, c) \<Rightarrow> (p, c) # leased s | Inl e \<Rightarrow> leased s)"
  by (simp add: second_attempt_def and_then_def case_prod_beta
      get_connection_pool_frame getconn_frame split: sum.splits)

lemma outer_except_leased:
  "leased (snd (outer_except env e s)) =
     (case fst (outer_except env e s) of
        Yielded c pt \<Rightarrow> lease_of pt # leased s
      | Raised e' \<Rightarrow> leased s
      | Returned \<Rightarrow> leased s)"
  by (simp add: outer_except_def case_prod_beta second_attempt_leased reset_pool_frame
      split: sum.splits)

lemma outer_except_yields_second:
  "fst (outer_except env e s) = Yielded c pt \<Longrightarrow> \<exists>p. pt = AtYield2 p c"
  by (auto simp add: outer_except_def case_prod_beta split: sum.splits if_splits)

lemma gen_start_leased:
  assumes "\<And>tr. ext_putconn env tr = Inr ()"
  shows "leased (snd (gen_start env s)) =
     (case fst (gen_start env s) of
        Yielded c pt \<Rightarrow> lease_of pt # leased s
      | Raised e \<Rightarrow> leased s
      | Returned \<Rightarrow> leased s)"
  by (simp add: gen_start_def case_prod_beta first_attempt_leased [OF assms] outer_except_leased
      split: sum.splits gen_result.splits)

lemma gen_resume_leased:
  assumes "\<And>tr. ext_putconn env tr = Inr ()" and "leased s = lease_of pt # held"
  shows "leased (snd (gen_resume env pt r s)) =
     (case fst (gen_resume env pt r s) of
        Yielded c pt' \<Rightarrow> lease_of pt' # held
      | Raised e \<Rightarrow> held
      | Returned \<Rightarrow> held)"
  using assms(2)
  by (cases pt)
     (simp_all add: gen_resume.simps case_prod_beta putconn_accepts [OF assms(1)]
        putconn_frame outer_except_leased split: resumption.splits gen_result.splits)

lemma gen_resume_yields_second:
  "fst (gen_resume env pt r s) = Yielded c pt' \<Longrightarrow> \<exists>p. pt' = AtYield2 p c"
  by (cases pt)
     (auto simp add: gen_resume.simps case_prod_beta
        split: sum.splits resumption.splits dest: outer_except_yields_second)

lemma gen_close_second_leased:
  assumes "\<And>tr. ext_putconn env tr = Inr ()" and "leased s = (p, c) # held"
  shows "leased (snd (gen_close env (AtYield2 p c) s)) = held"
    and "fst (gen_close env (AtYield2 p c) s) = Inr ()"
  using assms(2)
  by (simp_all add: gen_close_def gen_resume.simps case_prod_beta putconn_accepts [OF assms(1)]
      putconn_frame retry_except_def)

lemma did_not_stop_second_leased:
  assumes "\<And>tr. ext_putconn env tr = Inr ()"
  shows "leased (snd (did_not_stop env message (AtYield2 p c) s)) =
           (if contextlib_closes env then remove1 (p, c) (leased s) else leased s)"
    and "fst (did_not_stop env message (AtYield2 p c) s) = Inl (RuntimeError message)"
  by (simp_all add: did_not_stop_def gen_close_def gen_resume.simps case_prod_beta
      putconn_accepts [OF assms] putconn_frame retry_except_def)

text \<open>
  Claim C5 says that every connection leased during a use of \<^verbatim>\<open>get_connection\<close> is back in
  the pool when the use ends, on every way out. It fails where the library does not close a
  generator that yields again: nothing else failing, a block that raises
  \<^verbatim>\<open>OperationalError\<close> makes the handler lease a second connection and yield it; the
  \<^verbatim>\<open>with\<close> statement ends in \<^verbatim>\<open>RuntimeError\<close> and that lease, connection 3 of the second
  pool, is still outstanding.
\<close>

theorem second_lease_left_outstanding:
  "leased initial_state = [] \<and>
   fst (with_connection old_library_env failing_block initial_state) =
     Inl (RuntimeError ''generator didn't stop after throw()'') \<and>
   leased (snd (with_connection old_library_env failing_block initial_state)) = [(20, 3)]"
  by (simp add: run_defs)

text \<open>
  Claim C5, amended. Let the pool accept what is returned (\<^verbatim>\<open>putconn\<close> does not raise) and
  let the caller's block leave the leases alone. Then the leases outstanding after
  \<^verbatim>\<open>with self.get_connection() as conn\<close> are those outstanding before it on every way out on
  which the generator does not yield a second time, that is whenever the statement does not
  end in the \<^verbatim>\<open>RuntimeError\<close> of a generator that did not stop: normal completion, an
  exception of the block that is passed on, a failed first attempt or retry. Where the
  library closes a generator that yields again, the same holds on every way out.
\<close>

theorem leased_connections_returned:
  assumes accepts: "\<And>tr. ext_putconn env tr = Inr ()"
    and block: "\<And>c s. leased (snd (body c s)) = leased s"
  shows "(contextlib_closes env \<longrightarrow> leased (snd (with_connection env body s)) = leased s) \<and>
         (fst (with_connection env body s) \<noteq> Inl (RuntimeError ''generator didn't stop'') \<and>
          fst (with_connection env body s) \<noteq>
            Inl (RuntimeError ''generator didn't stop after throw()'') \<longrightarrow>
            leased (snd (with_connection env body s)) = leased s)"
proof (cases "fst (gen_start env s)")
  case (Raised e)
  with gen_start_leased [OF accepts, of s] show ?thesis
    by (simp add: with_connection_def case_prod_beta)
next
  case Returned
  with gen_start_leased [OF accepts, of s] show ?thesis
    by (simp add: with_connection_def case_prod_beta)
next
  case (Yielded c pt)
  let ?s1 = "snd (gen_start env s)"
  let ?s2 = "snd (body c ?s1)"
  from Yielded gen_start_leased [OF accepts, of s]
  have held: "leased ?s2 = lease_of pt # leased s"
    by (simp add: block)
  have after: "leased (snd (gen_resume env pt r ?s2)) =
     (case fst (gen_resume env pt r ?s2) of
        Yielded c' pt' \<Rightarrow> lease_of pt' # leased s
      | Raised e \<Rightarrow> leased s
      | Returned \<Rightarrow> leased s)" for r
    using accepts held by (rule gen_resume_leased)
  from Yielded have start: "fst (gen_start env s) = Yielded c pt" .
  have resumed: ?thesis
    if body: "fst (body c ?s1) = Inr v \<and> r = Next \<or> fst (body c ?s1) = Inl e \<and> r = Throw e"
    for r v e
  proof (cases "fst (gen_resume env pt r ?s2)")
    case (Yielded c' pt')
    then obtain p where pt': "pt' = AtYield2 p c'"
      by (auto dest: gen_resume_yields_second)
    from Yielded after [of r] pt'
    have "leased (snd (gen_resume env pt r ?s2)) = (p, c') # leased s"
      by simp
    with start body Yielded pt' show ?thesis
      by (auto simp add: with_connection_def case_prod_beta
          did_not_stop_second_leased [OF accepts])
  next
    case (Raised e')
    with start body after [of r] show ?thesis
      by (auto simp add: with_connection_def case_prod_beta)
  next
    case Returned
    with start body after [of r] show ?thesis
      by (auto simp add: with_connection_def case_prod_beta)
  qed
  show ?thesis
  proof (cases "fst (body c ?s1)")
    case (Inl e)
    then show ?thesis
      by (simp add: resumed [of _ "Throw e" e])
  next
    case (Inr v)
    then show ?thesis
      by (simp add: resumed [of v Next])
  qed
qed

theorem leased_connections_returned_witness:
  "(\<forall>tr. ext_putconn calm_env tr = Inr ()) \<and>
   (\<forall>c s. leased (snd (failing_block c s)) = leased s) \<and>
   contextlib_closes calm_env \<and>
   fst (with_connection calm_env failing_block initial_state) =
     Inl (RuntimeError ''generator didn't stop after throw()'') \<and>
   leased (snd (with_connection calm_env failing_block initial_state)) = [] \<and>
   (\<forall>tr. ext_putconn old_library_env tr = Inr ()) \<and>
   (\<forall>c s. leased (snd (idle_block c s)) = leased s) \<and>
   fst (with_connection old_library_env idle_block initial_state) = Inr (Some ()) \<and>
   leased (snd (with_connection old_library_env idle_block initial_state)) = []"
proof -
  have accepts: "ext_putconn calm_env tr = Inr ()" for tr
    by (simp add: calm_env_def)
  have block: "leased (snd (failing_block c s)) = leased s" for c s
    by (simp add: failing_block_def)
  have closes: "contextlib_closes calm_env"
    by (simp add: calm_env_def)
  have empty: "leased initial_state = []"
    by (simp add: initial_state_def)
  from leased_connections_returned [where env = calm_env and body = failing_block
      and s = initial_state, OF accepts block] closes
  have "leased (snd (with_connection calm_env failing_block initial_state)) =
      leased initial_state"
    by blast
  with empty have a: "leased (snd (with_connection calm_env failing_block initial_state)) = []"
    by simp
  have r: "fst (with_connection calm_env failing_block initial_state) =
     Inl (RuntimeError ''generator didn't stop after throw()'')"
    by (simp add: run_defs)
  have accepts': "ext_putconn old_library_env tr = Inr ()" for tr
    by (simp add: old_library_env_def calm_env_def)
  have block': "leased (snd (idle_block c s)) = leased s" for c s
    by (simp add: idle_block_def)
  have r': "fst (with_connection old_library_env idle_block initial_state) = Inr (Some ())"
    by (simp add: run_defs)
  from leased_connections_returned [where env = old_library_env and body = idle_block
      and s = initial_state, OF accepts' block'] r'
  have "leased (snd (with_connection old_library_env idle_block initial_state)) =
      leased initial_state"
    by simp
  with empty have b: "leased (snd (with_connection old_library_env idle_block initial_state)) = []"
    by simp
  from accepts block closes r a accepts' block' r' b show ?thesis
    by blast
qed

section \<open>An \<^verbatim>\<open>OperationalError\<close> raised by the caller's block\<close>

text \<open>
  Claim C9 says that whenever the caller's block raises \<^verbatim>\<open>OperationalError\<close> on the yielded
  connection, the pool is rebuilt, the generator yields a second time and the caller sees a
  \<^verbatim>\<open>RuntimeError\<close>, never a \<^verbatim>\<open>DatabaseConnectionError\<close>. It fails when the pool cannot be
  rebuilt: with the server gone after the first pool was built, the first attempt yields
  connection 3, the block raises, and the caller observes \<^verbatim>\<open>DatabaseConnectionError\<close>.
\<close>

theorem block_error_becomes_connection_error:
  "fst (gen_start server_lost_env initial_state) = Yielded 3 (AtYield1 7 3) \<and>
   fst (failing_block 3 (snd (gen_start server_lost_env initial_state))) =
     Inl (OperationalError ''connection lost'') \<and>
   fst (with_connection server_lost_env failing_block initial_state) =
     Inl (DatabaseConnectionError (Some ''could not connect to server''))"
  by (simp add: run_defs)

text \<open>
  Claim C9, amended. Let the caller's block raise an \<^verbatim>\<open>OperationalError\<close> and let the pool
  accept the connection back. If the connection had been yielded by the first attempt, the
  handler resets the pool and runs the second attempt: when that succeeds the generator
  yields again and the caller observes \<^verbatim>\<open>RuntimeError\<close> (where the library closes the
  generator first, provided the pool accepts the second connection back in that closing;
  where it does not, with the generator left suspended); when it raises, the caller
  observes \<^verbatim>\<open>DatabaseConnectionError\<close> with the message of that exception if it is an
  \<^verbatim>\<open>OperationalError\<close>, and the exception itself otherwise. If the connection had been
  yielded by the retry, the caller observes
  \<^verbatim>\<open>DatabaseConnectionError\<close> with the message of the block's exception. In none of these
  cases does the caller observe the block's \<^verbatim>\<open>OperationalError\<close>.
\<close>

theorem operational_error_in_block:
  "(first_attempt env s = (Inr (p, c), s1) \<and> body c s1 = (Inl e, s2) \<and>
    is_OperationalError e \<and> fst (putconn env p c s2) = Inr () \<and>
    second_attempt env (reset_pool env (snd (putconn env p c s2))) = (Inr (p', c'), s3) \<and>
    (contextlib_closes env \<longrightarrow> fst (putconn env p' c' s3) = Inr ()) \<longrightarrow>
      with_connection env body s =
        (Inl (RuntimeError ''generator didn't stop after throw()''),
         if contextlib_closes env then snd (putconn env p' c' s3) else s3)) \<and>
   (first_attempt env s = (Inr (p, c), s1) \<and> body c s1 = (Inl e, s2) \<and>
    is_OperationalError e \<and> fst (putconn env p c s2) = Inr () \<and>
    second_attempt env (reset_pool env (snd (putconn env p c s2))) = (Inl e2, s3) \<longrightarrow>
      with_connection env body s =
        (Inl (if is_OperationalError e2 then DatabaseConnectionError (Some (str_exn e2))
              else e2), s3)) \<and>
   (first_attempt env s = (Inl e1, sf) \<and> is_OperationalError e1 \<and>
    second_attempt env (reset_pool env sf) = (Inr (p, c), s1) \<and> body c s1 = (Inl e, s2) \<and>
    is_OperationalError e \<and> fst (putconn env p c s2) = Inr () \<longrightarrow>
      with_connection env body s =
        (Inl (DatabaseConnectionError (Some (str_exn e))), snd (putconn env p c s2)))"
proof (intro conjI impI)
  assume h: "first_attempt env s = (Inr (p, c), s1) \<and> body c s1 = (Inl e, s2) \<and>
    is_OperationalError e \<and> fst (putconn env p c s2) = Inr () \<and>
    second_attempt env (reset_pool env (snd (putconn env p c s2))) = (Inr (p', c'), s3) \<and>
    (contextlib_closes env \<longrightarrow> fst (putconn env p' c' s3) = Inr ())"
  then have start: "gen_start env s = (Yielded c (AtYield1 p c), s1)"
    by (simp add: gen_start_def)
  from h have thrown: "gen_resume env (AtYield1 p c) (Throw e) s2 =
      (Yielded c' (AtYield2 p' c'), s3)"
    by (cases "putconn env p c s2") (simp add: gen_resume.simps outer_except_def)
  from h have closed: "gen_close env (AtYield2 p' c') s3 = (Inr (), snd (putconn env p' c' s3))"
    if "contextlib_closes env"
    using that
    by (cases "putconn env p' c' s3")
       (simp add: gen_close_def gen_resume.simps retry_except_def)
  from h start thrown closed
  show "with_connection env body s =
        (Inl (RuntimeError ''generator didn't stop after throw()''),
         if contextlib_closes env then snd (putconn env p' c' s3) else s3)"
    by (simp add: with_connection_def did_not_stop_def)
next
  assume h: "first_attempt env s = (Inr (p, c), s1) \<and> body c s1 = (Inl e, s2) \<and>
    is_OperationalError e \<and> fst (putconn env p c s2) = Inr () \<and>
    second_attempt env (reset_pool env (snd (putconn env p c s2))) = (Inl e2, s3)"
  then have start: "gen_start env s = (Yielded c (AtYield1 p c), s1)"
    by (simp add: gen_start_def)
  from h have thrown: "gen_resume env (AtYield1 p c) (Throw e) s2 =
      (Raised (retry_except e2), s3)"
    by (cases "putconn env p c s2") (simp add: gen_resume.simps outer_except_def)
  from h start thrown
  show "with_connection env body s =
        (Inl (if is_OperationalError e2 then DatabaseConnectionError (Some (str_exn e2))
              else e2), s3)"
    by (simp add: with_connection_def retry_except_def)
next
  assume h: "first_attempt env s = (Inl e1, sf) \<and> is_OperationalError e1 \<and>
    second_attempt env (reset_pool env sf) = (Inr (p, c), s1) \<and> body c s1 = (Inl e, s2) \<and>
    is_OperationalError e \<and> fst (putconn env p c s2) = Inr ()"
  then have start: "gen_start env s = (Yielded c (AtYield2 p c), s1)"
    by (simp add: gen_start_def outer_except_def)
  from h have thrown: "gen_resume env (AtYield2 p c) (Throw e) s2 =
      (Raised (DatabaseConnectionError (Some (str_exn e))), snd (putconn env p c s2))"
    by (cases "putconn env p c s2") (simp add: gen_resume.simps retry_except_def)
  from h start thrown
  show "with_connection env body s =
        (Inl (DatabaseConnectionError (Some (str_exn e))), snd (putconn env p c s2))"
    by (simp add: with_connection_def)
qed

theorem operational_error_in_block_witness:
  "first_attempt calm_env initial_state = (Inr (7, 3), snd (first_attempt calm_env initial_state)) \<and>
   failing_block 3 (snd (first_attempt calm_env initial_state)) =
     (Inl (OperationalError ''connection lost''), snd (first_attempt calm_env initial_state)) \<and>
   is_OperationalError (OperationalError ''connection lost'') \<and>
   fst (putconn calm_env 7 3 (snd (first_attempt calm_env initial_state))) = Inr () \<and>
   fst (second_attempt calm_env (reset_pool calm_env
          (snd (putconn calm_env 7 3 (snd (first_attempt calm_env initial_state)))))) =
     Inr (20, 3) \<and>
   fst (with_connection calm_env failing_block initial_state) =
     Inl (RuntimeError ''generator didn't stop after throw()'') \<and>
   first_attempt server_lost_env initial_state =
     (Inr (7, 3), snd (first_attempt server_lost_env initial_state)) \<and>
   fst (second_attempt server_lost_env (reset_pool server_lost_env
          (snd (putconn server_lost_env 7 3 (snd (first_attempt server_lost_env initial_state)))))) =
     Inl (OperationalError ''could not connect to server'') \<and>
   fst (with_connection server_lost_env failing_block initial_state) =
     Inl (DatabaseConnectionError (Some ''could not connect to server'')) \<and>
   fst (first_attempt dead_connection_env initial_state) =
     Inl (OperationalError ''server closed the connection unexpectedly'') \<and>
   fst (second_attempt dead_connection_env (reset_pool dead_connection_env
          (snd (first_attempt dead_connection_env initial_state)))) = Inr (20, 3) \<and>
   fst (with_connection dead_connection_env failing_block initial_state) =
     Inl (DatabaseConnectionError (Some ''connection lost''))"
proof -
  let ?e = "OperationalError ''connection lost''"
  let ?a1 = "snd (first_attempt calm_env initial_state)"
  let ?a2 = "reset_pool calm_env (snd (putconn calm_env 7 3 ?a1))"
  let ?a3 = "snd (second_attempt calm_env ?a2)"
  have a: "first_attempt calm_env initial_state = (Inr (7, 3), ?a1) \<and>
      failing_block 3 ?a1 = (Inl ?e, ?a1) \<and> is_OperationalError ?e \<and>
      fst (putconn calm_env 7 3 ?a1) = Inr () \<and>
      second_attempt calm_env ?a2 = (Inr (20, 3), ?a3) \<and>
      (contextlib_closes calm_env \<longrightarrow> fst (putconn calm_env 20 3 ?a3) = Inr ())"
    by (simp add: run_defs)
  from operational_error_in_block [where env = calm_env and s = initial_state and p = 7
      and c = 3 and ?s1.0 = ?a1 and body = failing_block and e = ?e and ?s2.0 = ?a1
      and p' = 20 and c' = 3 and ?s3.0 = ?a3] a
  have ra: "with_connection calm_env failing_block initial_state =
        (Inl (RuntimeError ''generator didn't stop after throw()''),
         if contextlib_closes calm_env then snd (putconn calm_env 20 3 ?a3) else ?a3)"
    by blast
  let ?b1 = "snd (first_attempt server_lost_env initial_state)"
  let ?b2 = "reset_pool server_lost_env (snd (putconn server_lost_env 7 3 ?b1))"
  let ?b3 = "snd (second_attempt server_lost_env ?b2)"
  let ?eb = "OperationalError ''could not connect to server''"
  have b: "first_attempt server_lost_env initial_state = (Inr (7, 3), ?b1) \<and>
      failing_block 3 ?b1 = (Inl ?e, ?b1) \<and> is_OperationalError ?e \<and>
      fst (putconn server_lost_env 7 3 ?b1) = Inr () \<and>
      second_attempt server_lost_env ?b2 = (Inl ?eb, ?b3)"
    by (simp add: run_defs)
  from operational_error_in_block [where env = server_lost_env and s = initial_state and p = 7
      and c = 3 and ?s1.0 = ?b1 and body = failing_block and e = ?e and ?s2.0 = ?b1
      and ?e2.0 = ?eb and ?s3.0 = ?b3] b
  have "with_connection server_lost_env failing_block initial_state =
        (Inl (if is_OperationalError ?eb then DatabaseConnectionError (Some (str_exn ?eb))
              else ?eb), ?b3)"
    by blast
  then have rb: "fst (with_connection server_lost_env failing_block initial_state) =
     Inl (DatabaseConnectionError (Some ''could not connect to server''))"
    by simp
  let ?ec = "OperationalError ''server closed the connection unexpectedly''"
  let ?c0 = "snd (first_attempt dead_connection_env initial_state)"
  let ?c1 = "snd (second_attempt dead_connection_env (reset_pool dead_connection_env ?c0))"
  have c: "first_attempt dead_connection_env initial_state = (Inl ?ec, ?c0) \<and>
      is_OperationalError ?ec \<and>
      second_attempt dead_connection_env (reset_pool dead_connection_env ?c0) =
        (Inr (20, 3), ?c1) \<and>
      failing_block 3 ?c1 = (Inl ?e, ?c1) \<and> is_OperationalError ?e \<and>
      fst (putconn dead_connection_env 20 3 ?c1) = Inr ()"
    by (simp add: run_defs)
  from operational_error_in_block [where env = dead_connection_env and s = initial_state
      and ?e1.0 = ?ec and sf = ?c0 and p = 20 and c = 3 and ?s1.0 = ?c1
      and body = failing_block and e = ?e and ?s2.0 = ?c1] c
  have "with_connection dead_connection_env failing_block initial_state =
        (Inl (DatabaseConnectionError (Some (str_exn ?e))),
         snd (putconn dead_connection_env 20 3 ?c1))"
    by blast
  then have rc: "fst (with_connection dead_connection_env failing_block initial_state) =
     Inl (DatabaseConnectionError (Some ''connection lost''))"
    by simp
  from ra have ra': "fst (with_connection calm_env failing_block initial_state) =
     Inl (RuntimeError ''generator didn't stop after throw()'')"
    by simp
  have a': "first_attempt calm_env initial_state = (Inr (7, 3), ?a1) \<and>
      failing_block 3 ?a1 = (Inl ?e, ?a1) \<and> is_OperationalError ?e \<and>
      fst (putconn calm_env 7 3 ?a1) = Inr () \<and>
      fst (second_attempt calm_env ?a2) = Inr (20, 3)"
    by (simp add: run_defs)
  have b': "first_attempt server_lost_env initial_state = (Inr (7, 3), ?b1) \<and>
      fst (second_attempt server_lost_env ?b2) = Inl ?eb"
    by (simp add: run_defs)
  have c': "fst (first_attempt dead_connection_env initial_state) = Inl ?ec \<and>
      fst (second_attempt dead_connection_env (reset_pool dead_connection_env ?c0)) =
        Inr (20, 3)"
    by (simp add: run_defs)
  from a' b' c' ra' rb rc show ?thesis by blast
qed

section \<open>The error mapping of \<^verbatim>\<open>execute_query\<close>\<close>

lemma gen_resume_passes_on:
  assumes "\<not> is_OperationalError e"
    and "fst (putconn env (fst (lease_of pt)) (snd (lease_of pt)) s) = Inr ()"
  shows "gen_resume env pt (Throw e) s =
     (Raised e, snd (putconn env (fst (lease_of pt)) (snd (lease_of pt)) s))"
  using assms
  by (cases pt)
     (simp_all add: gen_resume.simps case_prod_beta outer_except_def retry_except_def)

text \<open>
  Claim C6 says that every exception raised under the connection either becomes
  \<^verbatim>\<open>DatabaseQueryError\<close> with its message or reaches the caller as it is. It fails for an
  \<^verbatim>\<open>OperationalError\<close>, which the handler of \<^verbatim>\<open>get_connection\<close> takes before the \<^verbatim>\<open>except\<close>
  clauses of \<^verbatim>\<open>execute_query\<close> see it. When the connection drops under \<^verbatim>\<open>cur.execute\<close> and
  the server is gone at the rebuild, the caller gets \<^verbatim>\<open>DatabaseConnectionError\<close> with the
  message of the rebuild. When the server cancels the statement and stays reachable, the
  pool is rebuilt, the generator yields again, and the caller gets the \<^verbatim>\<open>RuntimeError\<close> of
  the context manager.
\<close>

theorem statement_error_not_mapped:
  "fst (gen_start connection_dropped_env initial_state) = Yielded 3 (AtYield1 7 3) \<and>
   fst (connection_block connection_dropped_env ''SELECT 1 AS x'' None 3
          (snd (gen_start connection_dropped_env initial_state))) =
     Inl (OperationalError ''server closed the connection unexpectedly'') \<and>
   fst (execute_query connection_dropped_env ''SELECT 1 AS x'' None initial_state) =
     Inl (DatabaseConnectionError (Some ''could not connect to server'')) \<and>
   fst (gen_start statement_timeout_env initial_state) = Yielded 3 (AtYield1 7 3) \<and>
   fst (connection_block statement_timeout_env ''SELECT 1 AS x'' None 3
          (snd (gen_start statement_timeout_env initial_state))) =
     Inl (OperationalError ''canceling statement due to statement timeout'') \<and>
   fst (execute_query statement_timeout_env ''SELECT 1 AS x'' None initial_state) =
     Inl (RuntimeError ''generator didn't stop after throw()'')"
  by (simp add: run_defs)

text \<open>
  Claim C6, amended. In \<^verbatim>\<open>execute_query\<close>, a \<^verbatim>\<open>DatabaseConnectionError\<close> raised by the connection
  manager reaches the caller unchanged. An exception that the statements under the
  connection raise (cursor, format, execute, description, fetch), other than an
  \<^verbatim>\<open>OperationalError\<close>, passes through the generator once the pool has accepted the
  connection back: if it is a driver error (\<^verbatim>\<open>psycopg2.Error\<close>) the caller gets
  \<^verbatim>\<open>DatabaseQueryError\<close> whose detail is its message, and if it is anything else the caller
  gets that exception itself. The three \<^verbatim>\<open>except\<close> clauses do the same to whatever exception
  leaves the \<^verbatim>\<open>with\<close> statement. An \<^verbatim>\<open>OperationalError\<close> raised by those statements is taken
  by the handler of \<^verbatim>\<open>get_connection\<close>: on a connection of the first attempt, when the
  second attempt after the reset raises an \<^verbatim>\<open>OperationalError\<close>, the caller gets
  \<^verbatim>\<open>DatabaseConnectionError\<close> with the message of that second exception; on a connection of
  the retry, the caller gets \<^verbatim>\<open>DatabaseConnectionError\<close> with the message of the statements'
  exception.
\<close>

theorem execute_query_error_mapping:
  "(gen_start env s = (Raised (DatabaseConnectionError d), s1) \<longrightarrow>
      execute_query env sql params s = (Inl (DatabaseConnectionError d), s1)) \<and>
   (gen_start env s = (Yielded c pt, s1) \<and>
    connection_block env sql params c s1 = (Inl e, s2) \<and> \<not> is_OperationalError e \<and>
    fst (putconn env (fst (lease_of pt)) (snd (lease_of pt)) s2) = Inr () \<longrightarrow>
      execute_query env sql params s =
        (Inl (if is_psycopg2_Error e then DatabaseQueryError (Some (str_exn e)) else e),
         snd (putconn env (fst (lease_of pt)) (snd (lease_of pt)) s2))) \<and>
   (with_connection env (connection_block env sql params) s = (Inl e', s') \<longrightarrow>
      execute_query env sql params s =
        (Inl (if is_DatabaseConnectionError e' then e'
              else if is_psycopg2_Error e' then DatabaseQueryError (Some (str_exn e'))
              else e'), s')) \<and>
   (first_attempt env s = (Inr (p, c), s1) \<and>
    connection_block env sql params c s1 = (Inl e, s2) \<and> is_OperationalError e \<and>
    fst (putconn env p c s2) = Inr () \<and>
    second_attempt env (reset_pool env (snd (putconn env p c s2))) = (Inl e2, s3) \<and>
    is_OperationalError e2 \<longrightarrow>
      execute_query env sql params s =
        (Inl (DatabaseConnectionError (Some (str_exn e2))), s3)) \<and>
   (first_attempt env s = (Inl e1, sf) \<and> is_OperationalError e1 \<and>
    second_attempt env (reset_pool env sf) = (Inr (p, c), s1) \<and>
    connection_block env sql params c s1 = (Inl e, s2) \<and> is_OperationalError e \<and>
    fst (putconn env p c s2) = Inr () \<longrightarrow>
      execute_query env sql params s =
        (Inl (DatabaseConnectionError (Some (str_exn e))), snd (putconn env p c s2)))"
proof (intro conjI impI)
  assume "gen_start env s = (Raised (DatabaseConnectionError d), s1)"
  then show "execute_query env sql params s = (Inl (DatabaseConnectionError d), s1)"
    by (simp add: execute_query_def with_connection_def)
next
  assume h: "gen_start env s = (Yielded c pt, s1) \<and>
    connection_block env sql params c s1 = (Inl e, s2) \<and> \<not> is_OperationalError e \<and>
    fst (putconn env (fst (lease_of pt)) (snd (lease_of pt)) s2) = Inr ()"
  then have "gen_resume env pt (Throw e) s2 =
     (Raised e, snd (putconn env (fst (lease_of pt)) (snd (lease_of pt)) s2))"
    by (simp add: gen_resume_passes_on)
  with h have "with_connection env (connection_block env sql params) s =
     (Inl e, snd (putconn env (fst (lease_of pt)) (snd (lease_of pt)) s2))"
    by (simp add: with_connection_def)
  then show "execute_query env sql params s =
        (Inl (if is_psycopg2_Error e then DatabaseQueryError (Some (str_exn e)) else e),
         snd (putconn env (fst (lease_of pt)) (snd (lease_of pt)) s2))"
    by (cases e) (simp_all add: execute_query_def)
next
  assume "with_connection env (connection_block env sql params) s = (Inl e', s')"
  then show "execute_query env sql params s =
        (Inl (if is_DatabaseConnectionError e' then e'
              else if is_psycopg2_Error e' then DatabaseQueryError (Some (str_exn e'))
              else e'), s')"
    by (cases e') (simp_all add: execute_query_def)
next
  assume h: "first_attempt env s = (Inr (p, c), s1) \<and>
    connection_block env sql params c s1 = (Inl e, s2) \<and> is_OperationalError e \<and>
    fst (putconn env p c s2) = Inr () \<and>
    second_attempt env (reset_pool env (snd (putconn env p c s2))) = (Inl e2, s3) \<and>
    is_OperationalError e2"
  then have start: "gen_start env s = (Yielded c (AtYield1 p c), s1)"
    by (simp add: gen_start_def)
  from h have thrown: "gen_resume env (AtYield1 p c) (Throw e) s2 =
      (Raised (DatabaseConnectionError (Some (str_exn e2))), s3)"
    by (cases "putconn env p c s2")
       (simp add: gen_resume.simps outer_except_def retry_except_def)
  from h start thrown
  have "with_connection env (connection_block env sql params) s =
      (Inl (DatabaseConnectionError (Some (str_exn e2))), s3)"
    by (simp add: with_connection_def)
  then show "execute_query env sql params s =
        (Inl (DatabaseConnectionError (Some (str_exn e2))), s3)"
    by (simp add: execute_query_def)
next
  assume h: "first_attempt env s = (Inl e1, sf) \<and> is_OperationalError e1 \<and>
    second_attempt env (reset_pool env sf) = (Inr (p, c), s1) \<and>
    connection_block env sql params c s1 = (Inl e, s2) \<and> is_OperationalError e \<and>
    fst (putconn env p c s2) = Inr ()"
  then have start: "gen_start env s = (Yielded c (AtYield2 p c), s1)"
    by (simp add: gen_start_def outer_except_def)
  from h have thrown: "gen_resume env (AtYield2 p c) (Throw e) s2 =
      (Raised (DatabaseConnectionError (Some (str_exn e))), snd (putconn env p c s2))"
    by (cases "putconn env p c s2") (simp add: gen_resume.simps retry_except_def)
  from h start thrown
  have "with_connection env (connection_block env sql params) s =
      (Inl (DatabaseConnectionError (Some (str_exn e))), snd (putconn env p c s2))"
    by (simp add: with_connection_def)
  then show "execute_query env sql params s =
        (Inl (DatabaseConnectionError (Some (str_exn e))), snd (putconn env p c s2))"
    by (simp add: execute_query_def)
qed

theorem execute_query_error_mapping_witness:
  "fst (gen_start lease_refused_env initial_state) =
     Raised (DatabaseConnectionError (Some ''connection refused'')) \<and>
   fst (execute_query lease_refused_env ''SELECT 1 AS x'' None initial_state) =
     Inl (DatabaseConnectionError (Some ''connection refused'')) \<and>
   fst (gen_start bad_statement_env initial_state) = Yielded 3 (AtYield1 7 3) \<and>
   fst (connection_block bad_statement_env ''SELEC 1'' None 3
          (snd (gen_start bad_statement_env initial_state))) =
     Inl (ProgrammingError ''syntax error at or near SELEC'') \<and>
   fst (execute_query bad_statement_env ''SELEC 1'' None initial_state) =
     Inl (DatabaseQueryError (Some ''syntax error at or near SELEC'')) \<and>
   fst (gen_start broken_fetch_env initial_state) = Yielded 3 (AtYield1 7 3) \<and>
   fst (connection_block broken_fetch_env ''SELECT 1 AS x'' None 3
          (snd (gen_start broken_fetch_env initial_state))) = Inl (OtherException ''MemoryError'') \<and>
   fst (execute_query broken_fetch_env ''SELECT 1 AS x'' None initial_state) =
     Inl (OtherException ''MemoryError'') \<and>
   fst (gen_start duplicate_key_env initial_state) = Yielded 3 (AtYield1 7 3) \<and>
   fst (connection_block duplicate_key_env ''INSERT INTO {schema}.t VALUES (1)'' None 3
          (snd (gen_start duplicate_key_env initial_state))) =
     Inl (DriverError ''duplicate key value violates unique constraint'') \<and>
   fst (execute_query duplicate_key_env ''INSERT INTO {schema}.t VALUES (1)'' None initial_state) =
     Inl (DatabaseQueryError (Some ''duplicate key value violates unique constraint'')) \<and>
   fst (first_attempt connection_dropped_env initial_state) = Inr (7, 3) \<and>
   fst (connection_block connection_dropped_env ''SELECT 1 AS x'' None 3
          (snd (first_attempt connection_dropped_env initial_state))) =
     Inl (OperationalError ''server closed the connection unexpectedly'') \<and>
   fst (execute_query connection_dropped_env ''SELECT 1 AS x'' None initial_state) =
     Inl (DatabaseConnectionError (Some ''could not connect to server'')) \<and>
   fst (first_attempt lost_again_env initial_state) =
     Inl (OperationalError ''server closed the connection unexpectedly'') \<and>
   fst (execute_query lost_again_env ''SELECT 1 AS x'' None initial_state) =
     Inl (DatabaseConnectionError (Some ''connection lost''))"
proof -
  let ?d = "Some ''connection refused''"
  let ?l1 = "snd (gen_start lease_refused_env initial_state)"
  have a: "fst (gen_start lease_refused_env initial_state) = Raised (DatabaseConnectionError ?d)"
    by (simp add: run_defs)
  then have "gen_start lease_refused_env initial_state = (Raised (DatabaseConnectionError ?d), ?l1)"
    by (simp add: prod_eq_iff)
  with execute_query_error_mapping [where env = lease_refused_env and s = initial_state
      and d = ?d and ?s1.0 = ?l1 and sql = "''SELECT 1 AS x''" and params = None]
  have "execute_query lease_refused_env ''SELECT 1 AS x'' None initial_state =
     (Inl (DatabaseConnectionError ?d), ?l1)"
    by blast
  then have ra: "fst (execute_query lease_refused_env ''SELECT 1 AS x'' None initial_state) =
     Inl (DatabaseConnectionError ?d)"
    by simp
  let ?e = "ProgrammingError ''syntax error at or near SELEC''"
  let ?b1 = "snd (gen_start bad_statement_env initial_state)"
  let ?b2 = "snd (connection_block bad_statement_env ''SELEC 1'' None 3 ?b1)"
  have b: "fst (gen_start bad_statement_env initial_state) = Yielded 3 (AtYield1 7 3)"
    "fst (connection_block bad_statement_env ''SELEC 1'' None 3 ?b1) = Inl ?e"
    "fst (putconn bad_statement_env (fst (lease_of (AtYield1 7 3)))
       (snd (lease_of (AtYield1 7 3))) ?b2) = Inr ()"
    by (simp_all add: run_defs)
  then have "gen_start bad_statement_env initial_state = (Yielded 3 (AtYield1 7 3), ?b1) \<and>
     connection_block bad_statement_env ''SELEC 1'' None 3 ?b1 = (Inl ?e, ?b2) \<and>
     \<not> is_OperationalError ?e \<and>
     fst (putconn bad_statement_env (fst (lease_of (AtYield1 7 3)))
       (snd (lease_of (AtYield1 7 3))) ?b2) = Inr ()"
    by (simp add: prod_eq_iff)
  with execute_query_error_mapping [where env = bad_statement_env and s = initial_state
      and c = 3 and pt = "AtYield1 7 3" and ?s1.0 = ?b1 and sql = "''SELEC 1''"
      and params = None and e = ?e and ?s2.0 = ?b2]
  have "execute_query bad_statement_env ''SELEC 1'' None initial_state =
        (Inl (if is_psycopg2_Error ?e then DatabaseQueryError (Some (str_exn ?e)) else ?e),
         snd (putconn bad_statement_env (fst (lease_of (AtYield1 7 3)))
           (snd (lease_of (AtYield1 7 3))) ?b2))"
    by blast
  then have rb: "fst (execute_query bad_statement_env ''SELEC 1'' None initial_state) =
     Inl (DatabaseQueryError (Some ''syntax error at or near SELEC''))"
    by simp
  let ?f = "OtherException ''MemoryError''"
  let ?c1 = "snd (gen_start broken_fetch_env initial_state)"
  let ?c2 = "snd (connection_block broken_fetch_env ''SELECT 1 AS x'' None 3 ?c1)"
  have c: "fst (gen_start broken_fetch_env initial_state) = Yielded 3 (AtYield1 7 3)"
    "fst (connection_block broken_fetch_env ''SELECT 1 AS x'' None 3 ?c1) = Inl ?f"
    "fst (putconn broken_fetch_env (fst (lease_of (AtYield1 7 3)))
       (snd (lease_of (AtYield1 7 3))) ?c2) = Inr ()"
    by (simp_all add: run_defs)
  then have "gen_start broken_fetch_env initial_state = (Yielded 3 (AtYield1 7 3), ?c1) \<and>
     connection_block broken_fetch_env ''SELECT 1 AS x'' None 3 ?c1 = (Inl ?f, ?c2) \<and>
     \<not> is_OperationalError ?f \<and>
     fst (putconn broken_fetch_env (fst (lease_of (AtYield1 7 3)))
       (snd (lease_of (AtYield1 7 3))) ?c2) = Inr ()"
    by (simp add: prod_eq_iff)
  with execute_query_error_mapping [where env = broken_fetch_env and s = initial_state
      and c = 3 and pt = "AtYield1 7 3" and ?s1.0 = ?c1 and sql = "''SELECT 1 AS x''"
      and params = None and e = ?f and ?s2.0 = ?c2]
  have "execute_query broken_fetch_env ''SELECT 1 AS x'' None initial_state =
        (Inl (if is_psycopg2_Error ?f then DatabaseQueryError (Some (str_exn ?f)) else ?f),
         snd (putconn broken_fetch_env (fst (lease_of (AtYield1 7 3)))
           (snd (lease_of (AtYield1 7 3))) ?c2))"
    by blast
  then have rc: "fst (execute_query broken_fetch_env ''SELECT 1 AS x'' None initial_state) = Inl ?f"
    by simp
  let ?g = "DriverError ''duplicate key value violates unique constraint''"
  let ?q = "''INSERT INTO {schema}.t VALUES (1)''"
  let ?d1 = "snd (gen_start duplicate_key_env initial_state)"
  let ?d2 = "snd (connection_block duplicate_key_env ?q None 3 ?d1)"
  have d: "fst (gen_start duplicate_key_env initial_state) = Yielded 3 (AtYield1 7 3)"
    "fst (connection_block duplicate_key_env ?q None 3 ?d1) = Inl ?g"
    "fst (putconn duplicate_key_env (fst (lease_of (AtYield1 7 3)))
       (snd (lease_of (AtYield1 7 3))) ?d2) = Inr ()"
    by (simp_all add: run_defs)
  then have "gen_start duplicate_key_env initial_state = (Yielded 3 (AtYield1 7 3), ?d1) \<and>
     connection_block duplicate_key_env ?q None 3 ?d1 = (Inl ?g, ?d2) \<and>
     \<not> is_OperationalError ?g \<and>
     fst (putconn duplicate_key_env (fst (lease_of (AtYield1 7 3)))
       (snd (lease_of (AtYield1 7 3))) ?d2) = Inr ()"
    by (simp add: prod_eq_iff)
  with execute_query_error_mapping [where env = duplicate_key_env and s = initial_state
      and c = 3 and pt = "AtYield1 7 3" and ?s1.0 = ?d1 and sql = ?q
      and params = None and e = ?g and ?s2.0 = ?d2]
  have "execute_query duplicate_key_env ?q None initial_state =
        (Inl (if is_psycopg2_Error ?g then DatabaseQueryError (Some (str_exn ?g)) else ?g),
         snd (putconn duplicate_key_env (fst (lease_of (AtYield1 7 3)))
           (snd (lease_of (AtYield1 7 3))) ?d2))"
    by blast
  then have rd: "fst (execute_query duplicate_key_env ?q None initial_state) =
     Inl (DatabaseQueryError (Some ''duplicate key value violates unique constraint''))"
    by simp
  let ?o = "OperationalError ''server closed the connection unexpectedly''"
  let ?o2 = "OperationalError ''could not connect to server''"
  let ?e1 = "snd (first_attempt connection_dropped_env initial_state)"
  let ?e2 = "snd (connection_block connection_dropped_env ''SELECT 1 AS x'' None 3 ?e1)"
  let ?e3 = "snd (second_attempt connection_dropped_env
     (reset_pool connection_dropped_env (snd (putconn connection_dropped_env 7 3 ?e2))))"
  have e: "fst (first_attempt connection_dropped_env initial_state) = Inr (7, 3)"
    "fst (connection_block connection_dropped_env ''SELECT 1 AS x'' None 3 ?e1) = Inl ?o"
    "fst (putconn connection_dropped_env 7 3 ?e2) = Inr ()"
    "fst (second_attempt connection_dropped_env
       (reset_pool connection_dropped_env (snd (putconn connection_dropped_env 7 3 ?e2)))) =
     Inl ?o2"
    by (simp_all add: run_defs)
  then have "first_attempt connection_dropped_env initial_state = (Inr (7, 3), ?e1) \<and>
     connection_block connection_dropped_env ''SELECT 1 AS x'' None 3 ?e1 = (Inl ?o, ?e2) \<and>
     is_OperationalError ?o \<and>
     fst (putconn connection_dropped_env 7 3 ?e2) = Inr () \<and>
     second_attempt connection_dropped_env
       (reset_pool connection_dropped_env (snd (putconn connection_dropped_env 7 3 ?e2))) =
       (Inl ?o2, ?e3) \<and>
     is_OperationalError ?o2"
    by (simp add: prod_eq_iff)
  with execute_query_error_mapping [where env = connection_dropped_env and s = initial_state
      and p = 7 and c = 3 and ?s1.0 = ?e1 and sql = "''SELECT 1 AS x''"
      and params = None and e = ?o and ?s2.0 = ?e2 and ?e2.0 = ?o2 and ?s3.0 = ?e3]
  have "execute_query connection_dropped_env ''SELECT 1 AS x'' None initial_state =
        (Inl (DatabaseConnectionError (Some (str_exn ?o2))), ?e3)"
    by blast
  then have re: "fst (execute_query connection_dropped_env ''SELECT 1 AS x'' None initial_state) =
     Inl (DatabaseConnectionError (Some ''could not connect to server''))"
    by simp
  let ?l = "OperationalError ''connection lost''"
  let ?ff = "snd (first_attempt lost_again_env initial_state)"
  let ?f1 = "snd (second_attempt lost_again_env (reset_pool lost_again_env ?ff))"
  let ?pc = "fst (second_attempt lost_again_env (reset_pool lost_again_env ?ff))"
  have f0: "?pc = Inr (20, 3)"
    by (simp add: run_defs)
  let ?f2 = "snd (connection_block lost_again_env ''SELECT 1 AS x'' None 3 ?f1)"
  have f: "fst (first_attempt lost_again_env initial_state) = Inl ?o"
    "fst (connection_block lost_again_env ''SELECT 1 AS x'' None 3 ?f1) = Inl ?l"
    "fst (putconn lost_again_env 20 3 ?f2) = Inr ()"
    by (simp_all add: run_defs)
  with f0 have "first_attempt lost_again_env initial_state = (Inl ?o, ?ff) \<and>
     is_OperationalError ?o \<and>
     second_attempt lost_again_env (reset_pool lost_again_env ?ff) = (Inr (20, 3), ?f1) \<and>
     connection_block lost_again_env ''SELECT 1 AS x'' None 3 ?f1 = (Inl ?l, ?f2) \<and>
     is_OperationalError ?l \<and>
     fst (putconn lost_again_env 20 3 ?f2) = Inr ()"
    by (simp add: prod_eq_iff)
  with execute_query_error_mapping [where env = lost_again_env and s = initial_state
      and p = 20 and c = 3 and ?s1.0 = ?f1 and sql = "''SELECT 1 AS x''"
      and params = None and e = ?l and ?s2.0 = ?f2 and ?e1.0 = ?o and sf = ?ff]
  have "execute_query lost_again_env ''SELECT 1 AS x'' None initial_state =
        (Inl (DatabaseConnectionError (Some (str_exn ?l))),
         snd (putconn lost_again_env 20 3 ?f2))"
    by blast
  then have rf: "fst (execute_query lost_again_env ''SELECT 1 AS x'' None initial_state) =
     Inl (DatabaseConnectionError (Some ''connection lost''))"
    by simp
  from a ra b(1,2) rb c(1,2) rc d(1,2) rd e(1,2) re f(1) rf show ?thesis by blast
qed

section \<open>The SQL text that \<^verbatim>\<open>execute_query\<close> sends\<close>

lemma cursor_block_sent:
  "sent_sql (snd (cursor_block env sql params c s)) =
     (case ext_format env sql (lakebase_schema (settings env)) of
        Inl e \<Rightarrow> sent_sql s
      | Inr q \<Rightarrow> q # sent_sql s)"
  "sent_params (snd (cursor_block env sql params c s)) =
     (case ext_format env sql (lakebase_schema (settings env)) of
        Inl e \<Rightarrow> sent_params s
      | Inr q \<Rightarrow> params # sent_params s)"
  by (simp_all add: cursor_block_def and_then_def wrapper_defs case_prod_beta call_ext_frame
      split: sum.splits option.splits)

lemma connection_block_sent:
  "sent_sql (snd (connection_block env sql params c s)) =
     (case ext_cursor env (Cursor c # trace s) of
        Inl e \<Rightarrow> sent_sql s
      | Inr u \<Rightarrow>
          (case ext_format env sql (lakebase_schema (settings env)) of
             Inl e \<Rightarrow> sent_sql s
           | Inr q \<Rightarrow> q # sent_sql s))"
  "sent_params (snd (connection_block env sql params c s)) =
     (case ext_cursor env (Cursor c # trace s) of
        Inl e \<Rightarrow> sent_params s
      | Inr u \<Rightarrow>
          (case ext_format env sql (lakebase_schema (settings env)) of
             Inl e \<Rightarrow> sent_params s
           | Inr q \<Rightarrow> params # sent_params s))"
  by (simp_all add: connection_block_def and_then_def wrapper_defs case_prod_beta
      call_ext_frame cursor_block_sent split: sum.splits)

lemma with_connection_sent:
  "sent_sql (snd (with_connection env body s)) =
     (case fst (gen_start env s) of
        Yielded c pt \<Rightarrow> sent_sql (snd (body c (snd (gen_start env s))))
      | Raised e \<Rightarrow> sent_sql s
      | Returned \<Rightarrow> sent_sql s)"
  "sent_params (snd (with_connection env body s)) =
     (case fst (gen_start env s) of
        Yielded c pt \<Rightarrow> sent_params (snd (body c (snd (gen_start env s))))
      | Raised e \<Rightarrow> sent_params s
      | Returned \<Rightarrow> sent_params s)"
  by (simp_all add: with_connection_def case_prod_beta gen_start_frame gen_resume_frame
      did_not_stop_frame split: gen_result.splits sum.splits)

lemma execute_query_state:
  "snd (execute_query env sql params s) =
     snd (with_connection env (connection_block env sql params) s)"
  by (simp add: execute_query_def case_prod_beta split: sum.splits)

lemma execute_query_sent:
  "sent_sql (snd (execute_query env sql params s)) =
     (case fst (gen_start env s) of
        Yielded c pt \<Rightarrow>
          (case ext_cursor env (Cursor c # trace (snd (gen_start env s))) of
             Inl e \<Rightarrow> sent_sql s
           | Inr u \<Rightarrow>
               (case ext_format env sql (lakebase_schema (settings env)) of
                  Inl e \<Rightarrow> sent_sql s
                | Inr q \<Rightarrow> q # sent_sql s))
      | Raised e \<Rightarrow> sent_sql s
      | Returned \<Rightarrow> sent_sql s)"
  "sent_params (snd (execute_query env sql params s)) =
     (case fst (gen_start env s) of
        Yielded c pt \<Rightarrow>
          (case ext_cursor env (Cursor c # trace (snd (gen_start env s))) of
             Inl e \<Rightarrow> sent_params s
           | Inr u \<Rightarrow>
               (case ext_format env sql (lakebase_schema (settings env)) of
                  Inl e \<Rightarrow> sent_params s
                | Inr q \<Rightarrow> params # sent_params s))
      | Raised e \<Rightarrow> sent_params s
      | Returned \<Rightarrow> sent_params s)"
  by (simp_all add: execute_query_state with_connection_sent connection_block_sent
      gen_start_frame split: gen_result.splits sum.splits)

text \<open>
  Claim C7. The SQL text that \<^verbatim>\<open>execute_query\<close> hands to \<^verbatim>\<open>cur.execute\<close> does not depend on
  the bind parameters: from the same state and environment, two calls with the same template
  and different parameters send the same texts. A call sends either nothing, or exactly one
  statement whose text is the template formatted with the configured schema name, the
  parameters being passed beside it as they were given.
\<close>

theorem sql_text_independent_of_params:
  "sent_sql (snd (execute_query env sql params s)) =
     sent_sql (snd (execute_query env sql params' s)) \<and>
   ((sent_sql (snd (execute_query env sql params s)) = sent_sql s \<and>
     sent_params (snd (execute_query env sql params s)) = sent_params s) \<or>
    (\<exists>q. ext_format env sql (lakebase_schema (settings env)) = Inr q \<and>
         sent_sql (snd (execute_query env sql params s)) = q # sent_sql s \<and>
         sent_params (snd (execute_query env sql params s)) = params # sent_params s))"
proof
  show "sent_sql (snd (execute_query env sql params s)) =
     sent_sql (snd (execute_query env sql params' s))"
    by (simp only: execute_query_sent)
next
  show "(sent_sql (snd (execute_query env sql params s)) = sent_sql s \<and>
     sent_params (snd (execute_query env sql params s)) = sent_params s) \<or>
    (\<exists>q. ext_format env sql (lakebase_schema (settings env)) = Inr q \<and>
         sent_sql (snd (execute_query env sql params s)) = q # sent_sql s \<and>
         sent_params (snd (execute_query env sql params s)) = params # sent_params s)"
    by (simp add: execute_query_sent split: gen_result.splits sum.splits)
qed

theorem sql_text_independent_of_params_witness:
  "sent_sql (snd (execute_query calm_env
      ''SELECT city FROM {schema}.city_investment WHERE city = %s''
      (Some [PStr ''Austin'']) initial_state)) =
   sent_sql (snd (execute_query calm_env
      ''SELECT city FROM {schema}.city_investment WHERE city = %s''
      (Some [PStr ''Boston'']) initial_state)) \<and>
   sent_sql (snd (execute_query calm_env
      ''SELECT city FROM {schema}.city_investment WHERE city = %s''
      (Some [PStr ''Austin'']) initial_state)) =
     [''SELECT city FROM gold.city_investment WHERE city = %s''] \<and>
   sent_params (snd (execute_query calm_env
      ''SELECT city FROM {schema}.city_investment WHERE city = %s''
      (Some [PStr ''Austin'']) initial_state)) = [Some [PStr ''Austin'']]"
proof -
  let ?q = "''SELECT city FROM {schema}.city_investment WHERE city = %s''"
  have "sent_sql (snd (execute_query calm_env ?q (Some [PStr ''Austin'']) initial_state)) =
     sent_sql (snd (execute_query calm_env ?q (Some [PStr ''Boston'']) initial_state))"
    using sql_text_independent_of_params [where env = calm_env and sql = ?q
        and params = "Some [PStr ''Austin'']" and params' = "Some [PStr ''Boston'']"
        and s = initial_state]
    by blast
  moreover have "sent_sql (snd (execute_query calm_env ?q (Some [PStr ''Austin''])
      initial_state)) = [''SELECT city FROM gold.city_investment WHERE city = %s'']"
    by (simp add: run_defs)
  moreover have "sent_params (snd (execute_query calm_env ?q (Some [PStr ''Austin''])
      initial_state)) = [Some [PStr ''Austin'']]"
    by (simp add: run_defs)
  ultimately show ?thesis by blast
qed

section \<open>The rows that \<^verbatim>\<open>execute_query\<close> returns\<close>

lemma dict_set_fresh: "k \<notin> fst ` set d \<Longrightarrow> dict_set d k v = d @ [(k, v)]"
  by (induction d) auto

lemma dict_set_keys:
  "map fst (dict_set d k v) = (if k \<in> set (map fst d) then map fst d else map fst d @ [k])"
proof (induction d)
  case Nil
  then show ?case by simp
next
  case (Cons a d)
  then show ?case by (cases a) force
qed

lemma dict_set_lookup: "map_of (dict_set d k v) = (map_of d)(k \<mapsto> v)"
  by (induction d) (auto simp: fun_eq_iff)

lemma foldl_dict_set_distinct:
  "distinct (map fst (d @ ps)) \<Longrightarrow> foldl (\<lambda>d (k, v). dict_set d k v) d ps = d @ ps"
proof (induction ps arbitrary: d)
  case Nil
  then show ?case by simp
next
  case (Cons kv ps)
  obtain k v where kv: "kv = (k, v)"
    by (cases kv)
  from Cons.prems kv have fresh: "k \<notin> fst ` set d"
    by auto
  from Cons.prems kv have "distinct (map fst ((d @ [(k, v)]) @ ps))"
    by simp
  then have "foldl (\<lambda>d (k, v). dict_set d k v) (d @ [(k, v)]) ps = (d @ [(k, v)]) @ ps"
    by (rule Cons.IH)
  with fresh kv show ?case
    by (simp add: dict_set_fresh)
qed

lemma py_dict_distinct: "distinct (map fst ps) \<Longrightarrow> py_dict ps = ps"
  using foldl_dict_set_distinct [of "[]" ps] by (simp add: py_dict_def)

lemma foldl_dict_set_lookup:
  "map_of (foldl (\<lambda>d (k, v). dict_set d k v) d ps) = map_of d ++ map_of (rev ps)"
proof (induction ps arbitrary: d)
  case Nil
  then show ?case by simp
next
  case (Cons kv ps)
  obtain k v where kv: "kv = (k, v)"
    by (cases kv)
  have "map_of (foldl (\<lambda>d (k, v). dict_set d k v) (dict_set d k v) ps) =
      map_of (dict_set d k v) ++ map_of (rev ps)"
    by (rule Cons.IH)
  with kv show ?case
    by (simp add: dict_set_lookup map_add_upd_left)
qed

lemma py_dict_lookup: "map_of (py_dict ps) = map_of (rev ps)"
  by (simp add: py_dict_def foldl_dict_set_lookup)

lemma foldl_dict_set_keys_distinct:
  "distinct (map fst d) \<Longrightarrow> distinct (map fst (foldl (\<lambda>d (k, v). dict_set d k v) d ps))"
  by (induction ps arbitrary: d) (auto simp: dict_set_keys)

lemma py_dict_keys_distinct: "distinct (map fst (py_dict ps))"
  by (simp add: py_dict_def foldl_dict_set_keys_distinct)

lemma gen_resume_throw_not_returned: "fst (gen_resume env pt (Throw e) s) \<noteq> Returned"
  by (cases pt)
     (simp_all add: gen_resume.simps outer_except_def case_prod_beta split: sum.splits)

lemma with_connection_value:
  assumes "fst (with_connection env body s) = Inr r"
  shows "\<exists>c pt v. fst (gen_start env s) = Yielded c pt \<and>
           fst (body c (snd (gen_start env s))) = Inr v \<and> r = Some v"
  using assms
  by (auto simp add: with_connection_def case_prod_beta gen_resume_throw_not_returned
      did_not_stop_raises split: gen_result.splits sum.splits)

lemma cursor_block_value:
  assumes "fst (cursor_block env sql params c s) = Inr v"
  shows "\<exists>q cols rows.
           ext_format env sql (lakebase_schema (settings env)) = Inr q \<and>
           ext_description env (CursorDescription c # CursorExecute c q params # trace s) =
             Some cols \<and>
           ext_fetchall env
             (CursorFetchAll c # CursorDescription c # CursorExecute c q params # trace s) =
             Inr rows \<and>
           v = map (\<lambda>row. py_dict (zip cols row)) rows"
  using assms
  by (auto simp add: cursor_block_def and_then_def wrapper_defs case_prod_beta call_ext_frame
      split: sum.splits option.splits)

lemma connection_block_value:
  assumes "fst (connection_block env sql params c s) = Inr v"
  shows "\<exists>q tr cols rows.
           ext_format env sql (lakebase_schema (settings env)) = Inr q \<and>
           ext_description env (CursorDescription c # CursorExecute c q params # tr) =
             Some cols \<and>
           ext_fetchall env
             (CursorFetchAll c # CursorDescription c # CursorExecute c q params # tr) =
             Inr rows \<and>
           v = map (\<lambda>row. py_dict (zip cols row)) rows"
proof -
  from assms
  have "fst (cursor_block env sql params c (snd (conn_cursor env c s))) = Inr v"
    by (simp add: connection_block_def and_then_def case_prod_beta split: sum.splits)
  from cursor_block_value [OF this] show ?thesis
    by blast
qed

text \<open>
  Claim C8. When \<^verbatim>\<open>execute_query\<close> returns, it returns a list (never \<^verbatim>\<open>None\<close>) with one
  mapping for each row that \<^verbatim>\<open>fetchall\<close> gave, in their order; the mapping of a row is
  \<^verbatim>\<open>dict(zip(columns, row))\<close> for the column names of the same statement's description, so
  it is a function of the columns and of that row alone. With distinct column names the
  items of a mapping are the columns paired with the row's values in column order; in any
  case a mapping holds every key once and the last value given under it. In the calm
  environment, whose server answers with the column \<open>x\<close> and the row \<open>(1)\<close>,
  \<^verbatim>\<open>SELECT 1 AS x\<close> returns \<^verbatim>\<open>[{"x": 1}]\<close>.
\<close>

theorem rows_become_mappings:
  "(execute_query env sql params s = (Inr r, s') \<longrightarrow>
      (\<exists>c q tr cols rows.
          ext_format env sql (lakebase_schema (settings env)) = Inr q \<and>
          ext_description env (CursorDescription c # CursorExecute c q params # tr) =
            Some cols \<and>
          ext_fetchall env
            (CursorFetchAll c # CursorDescription c # CursorExecute c q params # tr) =
            Inr rows \<and>
          r = Some (map (\<lambda>row. py_dict (zip cols row)) rows))) \<and>
   (distinct cols' \<longrightarrow> py_dict (zip cols' row') = zip cols' row') \<and>
   distinct (map fst (py_dict (zip cols' row'))) \<and>
   map_of (py_dict (zip cols' row')) = map_of (rev (zip cols' row'))"
proof (intro conjI impI)
  assume "execute_query env sql params s = (Inr r, s')"
  then have "fst (with_connection env (connection_block env sql params) s) = Inr r"
    by (auto simp add: execute_query_def case_prod_beta split: sum.splits if_splits)
  from with_connection_value [OF this] obtain c v
    where v: "fst (connection_block env sql params c (snd (gen_start env s))) = Inr v"
      and r: "r = Some v"
    by blast
  from connection_block_value [OF v] r
  show "\<exists>c q tr cols rows.
          ext_format env sql (lakebase_schema (settings env)) = Inr q \<and>
          ext_description env (CursorDescription c # CursorExecute c q params # tr) =
            Some cols \<and>
          ext_fetchall env
            (CursorFetchAll c # CursorDescription c # CursorExecute c q params # tr) =
            Inr rows \<and>
          r = Some (map (\<lambda>row. py_dict (zip cols row)) rows)"
    by blast
next
  assume "distinct cols'"
  then have "distinct (map fst (zip cols' row'))"
    by (simp add: distinct_zipI1 map_fst_zip_take)
  then show "py_dict (zip cols' row') = zip cols' row'"
    by (rule py_dict_distinct)
next
  show "distinct (map fst (py_dict (zip cols' row')))"
    by (rule py_dict_keys_distinct)
next
  show "map_of (py_dict (zip cols' row')) = map_of (rev (zip cols' row'))"
    by (rule py_dict_lookup)
qed


theorem rows_become_mappings_witness:
  "execute_query calm_env ''SELECT 1 AS x'' None initial_state =
     (Inr (Some [[(''x'', PInt 1)]]),
      snd (execute_query calm_env ''SELECT 1 AS x'' None initial_state)) \<and>
   (\<exists>c q tr cols rows.
       ext_format calm_env ''SELECT 1 AS x'' (lakebase_schema (settings calm_env)) = Inr q \<and>
       ext_description calm_env (CursorDescription c # CursorExecute c q None # tr) = Some cols \<and>
       ext_fetchall calm_env
         (CursorFetchAll c # CursorDescription c # CursorExecute c q None # tr) = Inr rows \<and>
       Some [[(''x'', PInt 1)]] = Some (map (\<lambda>row. py_dict (zip cols row)) rows)) \<and>
   distinct [''x''] \<and>
   py_dict (zip [''x''] [PInt 1]) = [(''x'', PInt 1)]"
proof -
  let ?s' = "snd (execute_query calm_env ''SELECT 1 AS x'' None initial_state)"
  have "fst (execute_query calm_env ''SELECT 1 AS x'' None initial_state) =
      Inr (Some [[(''x'', PInt 1)]])"
    by (simp add: run_defs)
  then have run: "execute_query calm_env ''SELECT 1 AS x'' None initial_state =
      (Inr (Some [[(''x'', PInt 1)]]), ?s')"
    by (simp add: prod_eq_iff)
  have cols: "distinct [''x'']"
    by simp
  note T = rows_become_mappings [where env = calm_env and sql = "''SELECT 1 AS x''"
      and params = None and s = initial_state and r = "Some [[(''x'', PInt 1)]]" and s' = ?s'
      and cols' = "[''x'']" and row' = "[PInt 1]"]
  from T run have a: "\<exists>c q tr cols rows.
       ext_format calm_env ''SELECT 1 AS x'' (lakebase_schema (settings calm_env)) = Inr q \<and>
       ext_description calm_env (CursorDescription c # CursorExecute c q None # tr) = Some cols \<and>
       ext_fetchall calm_env
         (CursorFetchAll c # CursorDescription c # CursorExecute c q None # tr) = Inr rows \<and>
       Some [[(''x'', PInt 1)]] = Some (map (\<lambda>row. py_dict (zip cols row)) rows)"
    by blast
  from T cols have "py_dict (zip [''x''] [PInt 1]) = zip [''x''] [PInt 1]"
    by blast
  then have b: "py_dict (zip [''x''] [PInt 1]) = [(''x'', PInt 1)]"
    by simp
  from run a cols b show ?thesis
    by blast
qed

end
